theory Spec2Isabelle
  imports Main
begin

section \<open>Modelling conventions\<close>

text \<open>
  This theory embeds the request templating and response evaluation engine of
  \<^verbatim>\<open>src/lib/parking-api.ts\<close>.

  \<^item> A JavaScript string is a \<^typ>\<open>string\<close>, read as its UTF-8 bytes. Character classes
    (\<^verbatim>\<open>\s\<close>, \<^verbatim>\<open>\w\<close>, \<^verbatim>\<open>\d\<close>), \<^verbatim>\<open>trim\<close> and case conversion are modelled on
    ASCII; bytes above 127 are neither white space nor letters.
  \<^item> A JavaScript value is a \<open>jsval\<close>. A Number is kept as its
    canonical decimal text (what \<^verbatim>\<open>String(n)\<close> prints), which determines the number up to the
    sign of zero; the two conversions that need floating point (reading a JSON number literal,
    and \<^verbatim>\<open>Number(s)\<close> on a string) are parameters of the model.
  \<^item> An object is the list of its own properties in enumeration order (array-index keys
    ascending, then the other keys by insertion). Inherited members of the built-in prototypes
    are not modelled: reading one gives \<^verbatim>\<open>undefined\<close>. A fresh object that
    receives the entries of another in enumeration order (a spread \<^verbatim>\<open>{...o}\<close>, or a loop of
    assignments over \<^verbatim>\<open>Object.entries(o)\<close>) enumerates the same keys in the same order, so
    such a copy is the list itself, with the values the loop assigns.
  \<^item> An exception is a value of type \<open>js_error\<close>; a function that can throw returns
    \<open>js_error + 'a\<close>.
  \<^item> The database lookup, \<^verbatim>\<open>fetch\<close> and \<^verbatim>\<open>RegExp\<close> on operator-written patterns
    are parameters; every call of the first two is recorded in a trace.
\<close>

section \<open>Strings\<close>

definition is_space :: "char \<Rightarrow> bool" where
  "is_space c = (c \<in> set [CHR 0x09, CHR 0x0A, CHR 0x0B, CHR 0x0C, CHR 0x0D, CHR '' ''])"

definition is_digit :: "char \<Rightarrow> bool" where
  "is_digit c = (c \<in> set ''0123456789'')"

definition is_upper :: "char \<Rightarrow> bool" where
  "is_upper c = (c \<in> set ''ABCDEFGHIJKLMNOPQRSTUVWXYZ'')"

definition is_lower :: "char \<Rightarrow> bool" where
  "is_lower c = (c \<in> set ''abcdefghijklmnopqrstuvwxyz'')"

definition is_alpha :: "char \<Rightarrow> bool" where
  "is_alpha c = (is_upper c \<or> is_lower c)"

text \<open>\<^verbatim>\<open>\w\<close>, \<^verbatim>\<open>[\w-]\<close> and the token name class \<^verbatim>\<open>[a-zA-Z0-9_.-]\<close>.\<close>

definition is_word :: "char \<Rightarrow> bool" where
  "is_word c = (is_alpha c \<or> is_digit c \<or> c = CHR ''_'')"

definition is_word_dash :: "char \<Rightarrow> bool" where
  "is_word_dash c = (is_word c \<or> c = CHR ''-'')"

definition is_name_char :: "char \<Rightarrow> bool" where
  "is_name_char c = (is_word c \<or> c = CHR ''.'' \<or> c = CHR ''-'')"

definition lower_char :: "char \<Rightarrow> char" where
  "lower_char c =
     (case map_of (zip ''ABCDEFGHIJKLMNOPQRSTUVWXYZ'' ''abcdefghijklmnopqrstuvwxyz'') c of
        Some l \<Rightarrow> l | None \<Rightarrow> c)"

definition upper_char :: "char \<Rightarrow> char" where
  "upper_char c =
     (case map_of (zip ''abcdefghijklmnopqrstuvwxyz'' ''ABCDEFGHIJKLMNOPQRSTUVWXYZ'') c of
        Some u \<Rightarrow> u | None \<Rightarrow> c)"

definition toLowerCase :: "string \<Rightarrow> string" where
  "toLowerCase s = map lower_char s"

definition toUpperCase :: "string \<Rightarrow> string" where
  "toUpperCase s = map upper_char s"

definition trim :: "string \<Rightarrow> string" where
  "trim s = rev (dropWhile is_space (rev (dropWhile is_space s)))"

definition startsWith :: "string \<Rightarrow> string \<Rightarrow> bool" where
  "startsWith p s = (take (length p) s = p)"

text \<open>\<^verbatim>\<open>s.includes(sub)\<close>.\<close>

fun str_includes :: "string \<Rightarrow> string \<Rightarrow> bool" where
  "str_includes sub [] = (sub = [])"
| "str_includes sub (c # cs) = (startsWith sub (c # cs) \<or> str_includes sub cs)"

text \<open>\<^verbatim>\<open>s.indexOf(c)\<close> for a single character; \<open>None\<close> stands for \<open>-1\<close>.\<close>

fun indexOf :: "char \<Rightarrow> string \<Rightarrow> nat option" where
  "indexOf c [] = None"
| "indexOf c (d # ds) = (if d = c then Some 0 else map_option Suc (indexOf c ds))"

text \<open>\<^verbatim>\<open>s.lastIndexOf(c)\<close>.\<close>

definition lastIndexOf :: "char \<Rightarrow> string \<Rightarrow> nat option" where
  "lastIndexOf c s =
     (case indexOf c (rev s) of None \<Rightarrow> None | Some i \<Rightarrow> Some (length s - 1 - i))"

text \<open>
  \<^verbatim>\<open>s.split(/[...]+/)\<close> for a character class \<open>p\<close>: the pieces between maximal runs of
  separator characters. The second argument collects the current piece in reverse.
\<close>

function split_runs :: "(char \<Rightarrow> bool) \<Rightarrow> string \<Rightarrow> string \<Rightarrow> string list" where
  "split_runs p cur [] = [rev cur]"
| "split_runs p cur (c # cs) =
     (if p c then rev cur # split_runs p [] (dropWhile p cs)
      else split_runs p (c # cur) cs)"
  by pat_completeness auto
termination
  by (relation "measure (\<lambda>(p, cur, s). length s)")
     (auto simp: length_dropWhile_le less_Suc_eq_le)

definition split_on :: "(char \<Rightarrow> bool) \<Rightarrow> string \<Rightarrow> string list" where
  "split_on p s = split_runs p [] s"

text \<open>\<^verbatim>\<open>xs.join(sep)\<close>.\<close>

fun join :: "string \<Rightarrow> string list \<Rightarrow> string" where
  "join sep [] = []"
| "join sep [x] = x"
| "join sep (x # y # ys) = x @ sep @ join sep (y # ys)"

text \<open>Decimal numerals, for array-index property names and lengths.\<close>

definition digit_char :: "nat \<Rightarrow> char" where
  "digit_char d = ''0123456789'' ! (d mod 10)"

fun dec_of_nat :: "nat \<Rightarrow> string" where
  "dec_of_nat n = (if n < 10 then [digit_char n] else dec_of_nat (n div 10) @ [digit_char (n mod 10)])"

definition digit_val :: "char \<Rightarrow> nat" where
  "digit_val c = (case indexOf c ''0123456789'' of Some d \<Rightarrow> d | None \<Rightarrow> 0)"

definition nat_of_dec :: "string \<Rightarrow> nat" where
  "nat_of_dec s = foldl (\<lambda>n c. 10 * n + digit_val c) 0 s"

section \<open>JavaScript values and objects\<close>

datatype jsval =
    JUndefined
  | JNull
  | JBool bool
  | JNum string
  | JStr string
  | JArr "jsval list"
  | JObj "(string \<times> jsval) list"

type_synonym props = "(string \<times> jsval) list"

datatype js_error = TypeError | SyntaxError | NetworkError

text \<open>\<^verbatim>\<open>Boolean(v)\<close>, the truthiness used by \<^verbatim>\<open>if\<close>, \<^verbatim>\<open>||\<close>, \<^verbatim>\<open>&&\<close> and \<^verbatim>\<open>!\<close>.\<close>

fun truthy :: "jsval \<Rightarrow> bool" where
  "truthy JUndefined = False"
| "truthy JNull = False"
| "truthy (JBool b) = b"
| "truthy (JNum n) = (n \<noteq> ''0'' \<and> n \<noteq> ''NaN'')"
| "truthy (JStr s) = (s \<noteq> [])"
| "truthy (JArr xs) = True"
| "truthy (JObj ps) = True"

text \<open>\<^verbatim>\<open>String(v)\<close>. An array prints its elements joined by commas, holes for null and undefined.\<close>

fun to_string :: "jsval \<Rightarrow> string" where
  "to_string JUndefined = ''undefined''"
| "to_string JNull = ''null''"
| "to_string (JBool b) = (if b then ''true'' else ''false'')"
| "to_string (JNum n) = n"
| "to_string (JStr s) = s"
| "to_string (JArr xs) =
     join '','' (map (\<lambda>x. if x = JUndefined \<or> x = JNull then [] else to_string x) xs)"
| "to_string (JObj ps) = ''[object Object]''"

text \<open>
  \<^verbatim>\<open>a === b\<close>. Objects and arrays compare by identity; the two sides compared in this program
  always come from two separate \<^verbatim>\<open>JSON.parse\<close> calls, so they are never the same object.
\<close>

fun strict_eq :: "jsval \<Rightarrow> jsval \<Rightarrow> bool" where
  "strict_eq JUndefined JUndefined = True"
| "strict_eq JNull JNull = True"
| "strict_eq (JBool a) (JBool b) = (a = b)"
| "strict_eq (JNum a) (JNum b) = (a = b \<and> a \<noteq> ''NaN'')"
| "strict_eq (JStr a) (JStr b) = (a = b)"
| "strict_eq _ _ = False"


text \<open>\<^verbatim>\<open>typeof v === 'object'\<close> (true of \<^verbatim>\<open>null\<close>, arrays and objects).\<close>

definition typeof_object :: "jsval \<Rightarrow> bool" where
  "typeof_object v = (case v of JNull \<Rightarrow> True | JArr xs \<Rightarrow> True | JObj ps \<Rightarrow> True | _ \<Rightarrow> False)"

text \<open>
  An array index is a canonical numeral below \<open>2^32 - 1\<close>; such keys are enumerated first,
  in ascending order.
\<close>

fun dec_less :: "string \<Rightarrow> string \<Rightarrow> bool" where
  "dec_less (a # as) (b # bs) = (digit_val a < digit_val b \<or> (a = b \<and> dec_less as bs))"
| "dec_less _ _ = False"

definition below_max_index :: "string \<Rightarrow> bool" where
  "below_max_index k = (length k < 10 \<or> (length k = 10 \<and> dec_less k ''4294967295''))"

definition array_index :: "string \<Rightarrow> nat option" where
  "array_index k =
     (if k \<noteq> [] \<and> list_all is_digit k \<and> (hd k = CHR ''0'' \<longrightarrow> k = ''0'')
         \<and> below_max_index k
      then Some (nat_of_dec k) else None)"

definition has_own :: "props \<Rightarrow> string \<Rightarrow> bool" where
  "has_own ps k = (k \<in> set (map fst ps))"

definition obj_get :: "props \<Rightarrow> string \<Rightarrow> jsval" where
  "obj_get ps k = (case map_of ps k of Some v \<Rightarrow> v | None \<Rightarrow> JUndefined)"

fun ins_index :: "nat \<Rightarrow> string \<Rightarrow> jsval \<Rightarrow> props \<Rightarrow> props" where
  "ins_index n k v [] = [(k, v)]"
| "ins_index n k v ((k', v') # ps) =
     (case array_index k' of
        Some m \<Rightarrow> if m < n then (k', v') # ins_index n k v ps else (k, v) # (k', v') # ps
      | None \<Rightarrow> (k, v) # (k', v') # ps)"

text \<open>\<^verbatim>\<open>o[k] = v\<close> on a plain object: an existing key keeps its place.\<close>

definition obj_set :: "string \<Rightarrow> jsval \<Rightarrow> props \<Rightarrow> props" where
  "obj_set k v ps =
     (if has_own ps k then map (\<lambda>(k', v'). if k' = k then (k', v) else (k', v')) ps
      else case array_index k of
             None \<Rightarrow> ps @ [(k, v)]
           | Some n \<Rightarrow> ins_index n k v ps)"

text \<open>\<^verbatim>\<open>delete o[k]\<close>.\<close>

definition obj_delete :: "string \<Rightarrow> props \<Rightarrow> props" where
  "obj_delete k ps = filter (\<lambda>(k', v'). k' \<noteq> k) ps"

text \<open>Setting a list of entries one after the other, as a spread or an assignment loop does.\<close>

definition obj_assign :: "props \<Rightarrow> props \<Rightarrow> props" where
  "obj_assign base entries = fold (\<lambda>(k, v). obj_set k v) entries base"

text \<open>
  \<^verbatim>\<open>Object.entries(v)\<close> of a value that is not null or undefined, which is also what the
  spread \<^verbatim>\<open>{...v}\<close> copies: the elements of an array and the characters of a string under
  their indices, nothing for a number or a boolean.
\<close>

definition indexed :: "jsval list \<Rightarrow> props" where
  "indexed xs = map (\<lambda>i. (dec_of_nat i, xs ! i)) [0 ..< length xs]"

fun entries :: "jsval \<Rightarrow> props" where
  "entries (JObj ps) = ps"
| "entries (JArr xs) = indexed xs"
| "entries (JStr s) = indexed (map (\<lambda>c. JStr [c]) s)"
| "entries _ = []"

text \<open>\<^verbatim>\<open>v[k]\<close> for a value that is not null or undefined.\<close>

fun get_prop :: "jsval \<Rightarrow> string \<Rightarrow> jsval" where
  "get_prop (JObj ps) k = obj_get ps k"
| "get_prop (JArr xs) k =
     (case array_index k of
        Some i \<Rightarrow> if i < length xs then xs ! i else JUndefined
      | None \<Rightarrow> if k = ''length'' then JNum (dec_of_nat (length xs)) else JUndefined)"
| "get_prop (JStr s) k =
     (case array_index k of
        Some i \<Rightarrow> if i < length s then JStr [s ! i] else JUndefined
      | None \<Rightarrow> if k = ''length'' then JNum (dec_of_nat (length s)) else JUndefined)"
| "get_prop _ k = JUndefined"

text \<open>\<^verbatim>\<open>v?.k\<close>: undefined when \<open>v\<close> is null or undefined.\<close>

definition opt_prop :: "jsval \<Rightarrow> string \<Rightarrow> jsval" where
  "opt_prop v k = (if v = JUndefined \<or> v = JNull then JUndefined else get_prop v k)"

section \<open>Header maps\<close>

text \<open>\<^verbatim>\<open>findHeaderKey\<close>: the first key, in enumeration order, whose lower-case form is the name.\<close>

fun findHeaderKey :: "props \<Rightarrow> string \<Rightarrow> string option" where
  "findHeaderKey [] lowerName = None"
| "findHeaderKey ((key, v) # ps) lowerName =
     (if toLowerCase key = lowerName then Some key else findHeaderKey ps lowerName)"

definition hasHeader :: "props \<Rightarrow> string \<Rightarrow> bool" where
  "hasHeader headers name = (findHeaderKey headers (toLowerCase name) \<noteq> None)"

text \<open>
  \<^verbatim>\<open>setHeader\<close>. The source tests \<^verbatim>\<open>if (existingKey)\<close>, so an existing key that is the
  empty string counts as absent.
\<close>

definition setHeader :: "props \<Rightarrow> string \<Rightarrow> string \<Rightarrow> props" where
  "setHeader headers name val =
     (case findHeaderKey headers (toLowerCase name) of
        Some existingKey \<Rightarrow>
          if existingKey \<noteq> [] then obj_set existingKey (JStr val) headers
          else obj_set name (JStr val) headers
      | None \<Rightarrow> obj_set name (JStr val) headers)"

text \<open>One round of the loop of \<^verbatim>\<open>mergeHeaders\<close>.\<close>

definition mergeHeader :: "string \<times> jsval \<Rightarrow> props \<Rightarrow> props" where
  "mergeHeader kv next =
     (let key = fst kv; val = snd kv in
      case findHeaderKey next (toLowerCase key) of
        Some existingKey \<Rightarrow>
          if existingKey \<noteq> [] \<and> existingKey \<noteq> key
          then obj_set key val (obj_delete existingKey next)
          else obj_set key val next
      | None \<Rightarrow> obj_set key val next)"

text \<open>\<^verbatim>\<open>mergeHeaders\<close>: the loop runs on a copy of the headers.\<close>

definition mergeHeaders :: "props \<Rightarrow> props \<Rightarrow> props" where
  "mergeHeaders headers overrides = fold mergeHeader overrides headers"

section \<open>Token substitution\<close>

text \<open>
  \<^verbatim>\<open>s.replace(re, f)\<close> for a global regular expression that never matches the empty string.
  The matcher \<open>m\<close> says whether \<open>re\<close> matches at the head of the text, and then gives the
  captured groups and the length of the match; unmatched characters are copied.
\<close>

function replace_all :: "(string \<Rightarrow> ('a \<times> nat) option) \<Rightarrow> ('a \<Rightarrow> string) \<Rightarrow> string \<Rightarrow> string" where
  "replace_all m f [] = []"
| "replace_all m f (c # cs) =
     (case m (c # cs) of
        Some (cap, n) \<Rightarrow>
          if 0 < n then f cap @ replace_all m f (drop n (c # cs))
          else c # replace_all m f cs
      | None \<Rightarrow> c # replace_all m f cs)"
  by pat_completeness auto
termination
  by (relation "measure (\<lambda>(m, f, s). length s)") auto

text \<open>
  \<^verbatim>\<open>/#\{([a-zA-Z0-9_.-]+)\}/\<close> at the head of the text. The name class does not contain the
  closing brace, so the greedy run of name characters is the only candidate.
\<close>

definition match_legacy :: "string \<Rightarrow> (string \<times> nat) option" where
  "match_legacy s =
     (case s of
        a # b # r \<Rightarrow>
          if a = CHR ''#'' \<and> b = CHR 0x7B then
            (let name = takeWhile is_name_char r; r' = dropWhile is_name_char r in
             if name \<noteq> [] \<and> r' \<noteq> [] \<and> hd r' = CHR 0x7D
             then Some (name, length name + 3) else None)
          else None
      | _ \<Rightarrow> None)"

text \<open>
  \<^verbatim>\<open>TEMPLATE_TOKEN_RE = /\{\{\s*([a-zA-Z0-9_.-]+)\s*\}\}/\<close> at the head of the text. White space,
  name characters and the closing brace are disjoint classes, so the greedy runs are the only
  candidate here too.
\<close>

definition match_token :: "string \<Rightarrow> (string \<times> nat) option" where
  "match_token s =
     (case s of
        a # b # r \<Rightarrow>
          if a = CHR 0x7B \<and> b = CHR 0x7B then
            (let ws1 = takeWhile is_space r; r1 = dropWhile is_space r;
                 name = takeWhile is_name_char r1; r2 = dropWhile is_name_char r1;
                 ws2 = takeWhile is_space r2; r3 = dropWhile is_space r2 in
             if name \<noteq> [] \<and> take 2 r3 = [CHR 0x7D, CHR 0x7D]
             then Some (name, length ws1 + length name + length ws2 + 4) else None)
          else None
      | _ \<Rightarrow> None)"

text \<open>
  \<^verbatim>\<open>getValueByPath\<close>: \<^verbatim>\<open>path.replace(/\[(\d+)\]/g, '.$1')\<close>, then the walk over the non-empty
  segments between dots.
\<close>

definition match_bracket_index :: "string \<Rightarrow> (string \<times> nat) option" where
  "match_bracket_index s =
     (case s of
        a # r \<Rightarrow>
          if a = CHR 0x5B then
            (let ds = takeWhile is_digit r; r' = dropWhile is_digit r in
             if ds \<noteq> [] \<and> r' \<noteq> [] \<and> hd r' = CHR 0x5D
             then Some (ds, length ds + 2) else None)
          else None
      | _ \<Rightarrow> None)"

definition normalize_path :: "string \<Rightarrow> string" where
  "normalize_path path = replace_all match_bracket_index (\<lambda>ds. CHR ''.'' # ds) path"

text \<open>\<^verbatim>\<open>s.split('.')\<close>: the pieces between single dots.\<close>

fun split_char :: "char \<Rightarrow> string \<Rightarrow> string \<Rightarrow> string list" where
  "split_char d cur [] = [rev cur]"
| "split_char d cur (c # cs) =
     (if c = d then rev cur # split_char d [] cs else split_char d (c # cur) cs)"

fun walk_path :: "jsval \<Rightarrow> string list \<Rightarrow> jsval" where
  "walk_path current [] = current"
| "walk_path current (part # parts) =
     (if current = JUndefined \<or> current = JNull then JUndefined
      else walk_path (get_prop current part) parts)"

definition path_parts :: "string \<Rightarrow> string list" where
  "path_parts path = filter (\<lambda>p. p \<noteq> []) (split_char CHR ''.'' [] (normalize_path path))"

definition getValueByPath :: "jsval \<Rightarrow> string \<Rightarrow> jsval" where
  "getValueByPath obj path =
     (if path = [] then JUndefined else walk_path obj (path_parts path))"

text \<open>The replacer of \<^verbatim>\<open>applyTemplate\<close>: what one token is replaced by.\<close>

definition resolve_token :: "props \<Rightarrow> string \<Rightarrow> string" where
  "resolve_token context key =
     (let rawValue = (if CHR ''.'' \<in> set key then getValueByPath (JObj context) key
                      else obj_get context key) in
      if rawValue = JUndefined \<or> rawValue = JNull then []
      else to_string rawValue)"

definition normalize_legacy :: "string \<Rightarrow> string" where
  "normalize_legacy v = replace_all match_legacy (\<lambda>name. ''{{'' @ name @ ''}}'') v"

definition applyTemplate :: "string \<Rightarrow> props \<Rightarrow> string" where
  "applyTemplate v context =
     replace_all match_token (resolve_token context) (normalize_legacy v)"

text \<open>
  \<^verbatim>\<open>replaceTemplates\<close>. The object case assigns the entries, in enumeration order, to a fresh
  object.
\<close>

fun replaceTemplates :: "jsval \<Rightarrow> props \<Rightarrow> jsval" where
  "replaceTemplates (JStr s) context = JStr (applyTemplate s context)"
| "replaceTemplates (JArr xs) context = JArr (map (\<lambda>item. replaceTemplates item context) xs)"
| "replaceTemplates (JObj ps) context =
     JObj (map (\<lambda>(key, val). (key, replaceTemplates val context)) ps)"
| "replaceTemplates v context = v"

section \<open>URLSearchParams\<close>

text \<open>
  The \<^verbatim>\<open>application/x-www-form-urlencoded\<close> format of the URL standard, on bytes. Decoding
  to a string is taken as the identity on the decoded bytes, which is what UTF-8 decoding gives
  on well-formed input.
\<close>

fun nibble_hex :: "bool \<Rightarrow> bool \<Rightarrow> bool \<Rightarrow> bool \<Rightarrow> char" where
  "nibble_hex False False False False = CHR ''0''"
| "nibble_hex True False False False = CHR ''1''"
| "nibble_hex False True False False = CHR ''2''"
| "nibble_hex True True False False = CHR ''3''"
| "nibble_hex False False True False = CHR ''4''"
| "nibble_hex True False True False = CHR ''5''"
| "nibble_hex False True True False = CHR ''6''"
| "nibble_hex True True True False = CHR ''7''"
| "nibble_hex False False False True = CHR ''8''"
| "nibble_hex True False False True = CHR ''9''"
| "nibble_hex False True False True = CHR ''A''"
| "nibble_hex True True False True = CHR ''B''"
| "nibble_hex False False True True = CHR ''C''"
| "nibble_hex True False True True = CHR ''D''"
| "nibble_hex False True True True = CHR ''E''"
| "nibble_hex True True True True = CHR ''F''"

text \<open>The four bits of a hexadecimal digit, least significant first.\<close>

definition hex_nibble :: "char \<Rightarrow> (bool \<times> bool \<times> bool \<times> bool) option" where
  "hex_nibble c =
     map_of
       [(CHR ''0'', (False, False, False, False)), (CHR ''1'', (True, False, False, False)),
        (CHR ''2'', (False, True, False, False)), (CHR ''3'', (True, True, False, False)),
        (CHR ''4'', (False, False, True, False)), (CHR ''5'', (True, False, True, False)),
        (CHR ''6'', (False, True, True, False)), (CHR ''7'', (True, True, True, False)),
        (CHR ''8'', (False, False, False, True)), (CHR ''9'', (True, False, False, True)),
        (CHR ''A'', (False, True, False, True)), (CHR ''B'', (True, True, False, True)),
        (CHR ''C'', (False, False, True, True)), (CHR ''D'', (True, False, True, True)),
        (CHR ''E'', (False, True, True, True)), (CHR ''F'', (True, True, True, True)),
        (CHR ''a'', (False, True, False, True)), (CHR ''b'', (True, True, False, True)),
        (CHR ''c'', (False, False, True, True)), (CHR ''d'', (True, False, True, True)),
        (CHR ''e'', (False, True, True, True)), (CHR ''f'', (True, True, True, True))] c"

definition percent_byte :: "char \<Rightarrow> string" where
  "percent_byte c =
     (case c of Char b0 b1 b2 b3 b4 b5 b6 b7 \<Rightarrow>
        [CHR ''%'', nibble_hex b4 b5 b6 b7, nibble_hex b0 b1 b2 b3])"

text \<open>Bytes the serializer leaves as they are: ASCII alphanumerics and \<^verbatim>\<open>*-._\<close>.\<close>

definition form_safe :: "char \<Rightarrow> bool" where
  "form_safe c = (is_alpha c \<or> is_digit c \<or> c \<in> set ''*-._'')"

definition form_encode_char :: "char \<Rightarrow> string" where
  "form_encode_char c =
     (if c = CHR '' '' then ''+'' else if form_safe c then [c] else percent_byte c)"

definition form_encode :: "string \<Rightarrow> string" where
  "form_encode s = concat (map form_encode_char s)"

fun percent_decode :: "string \<Rightarrow> string" where
  "percent_decode (p # h # l # r) =
     (if p = CHR ''%'' then
        (case (hex_nibble h, hex_nibble l) of
           (Some (b4, b5, b6, b7), Some (b0, b1, b2, b3)) \<Rightarrow>
             Char b0 b1 b2 b3 b4 b5 b6 b7 # percent_decode r
         | _ \<Rightarrow> p # percent_decode (h # l # r))
      else p # percent_decode (h # l # r))"
| "percent_decode (c # r) = c # percent_decode r"
| "percent_decode [] = []"

definition form_decode :: "string \<Rightarrow> string" where
  "form_decode s = percent_decode (map (\<lambda>c. if c = CHR ''+'' then CHR '' '' else c) s)"

text \<open>One \<^verbatim>\<open>name=value\<close> sequence of the parser: split at the first \<^verbatim>\<open>=\<close>.\<close>

definition usp_pair :: "string \<Rightarrow> string \<times> string" where
  "usp_pair seq =
     (form_decode (takeWhile (\<lambda>c. c \<noteq> CHR ''='') seq),
      form_decode (drop 1 (dropWhile (\<lambda>c. c \<noteq> CHR ''='') seq)))"

text \<open>\<^verbatim>\<open>new URLSearchParams(init)\<close> for a string: a leading question mark is removed.\<close>

definition usp_parse :: "string \<Rightarrow> (string \<times> string) list" where
  "usp_parse init =
     (let input = (case init of c # r \<Rightarrow> if c = CHR ''?'' then r else init | [] \<Rightarrow> init) in
      map usp_pair (filter (\<lambda>seq. seq \<noteq> []) (split_char CHR ''&'' [] input)))"

text \<open>\<^verbatim>\<open>params.toString()\<close>.\<close>

definition usp_to_string :: "(string \<times> string) list \<Rightarrow> string" where
  "usp_to_string ps = join ''&'' (map (\<lambda>(n, v). form_encode n @ ''='' @ form_encode v) ps)"

text \<open>
  \<^verbatim>\<open>params.set(name, value)\<close>: the first pair of that name takes the value and the others are
  removed; without such a pair, one is appended.
\<close>

fun usp_set :: "string \<Rightarrow> string \<Rightarrow> (string \<times> string) list \<Rightarrow> (string \<times> string) list" where
  "usp_set name val [] = [(name, val)]"
| "usp_set name val ((n, v) # ps) =
     (if n = name then (name, val) # filter (\<lambda>(n', v'). n' \<noteq> name) ps
      else (n, v) # usp_set name val ps)"

text \<open>The entries of a parameter list collected into an object, as \<^verbatim>\<open>result[key] = value\<close> does.\<close>

definition usp_entries :: "(string \<times> string) list \<Rightarrow> props" where
  "usp_entries ps = map (\<lambda>(n, v). (n, JStr v)) ps"

section \<open>The platform\<close>

text \<open>
  What the model takes from the JavaScript runtime without defining it: the value of a JSON
  number literal and of \<^verbatim>\<open>Number(s)\<close> for a string (both as canonical number text), and
  \<^verbatim>\<open>new RegExp(pattern).test(text)\<close>, which throws on a malformed pattern.
\<close>

record platform =
  json_number :: "string \<Rightarrow> string"
  string_to_number :: "string \<Rightarrow> string"
  regexp_test :: "string \<Rightarrow> string \<Rightarrow> js_error + bool"

section \<open>JSON\<close>

definition json_ws :: "char \<Rightarrow> bool" where
  "json_ws c = (c \<in> set [CHR '' '', CHR 0x09, CHR 0x0A, CHR 0x0D])"

definition skip_ws :: "string \<Rightarrow> string" where
  "skip_ws s = dropWhile json_ws s"

definition is_control :: "char \<Rightarrow> bool" where
  "is_control c = (case c of Char b0 b1 b2 b3 b4 b5 b6 b7 \<Rightarrow> \<not> b5 \<and> \<not> b6 \<and> \<not> b7)"

definition simple_escape :: "char \<Rightarrow> char option" where
  "simple_escape e =
     map_of [(CHR 0x22, CHR 0x22), (CHR 0x5C, CHR 0x5C), (CHR ''/'', CHR ''/''),
             (CHR ''b'', CHR 0x08), (CHR ''f'', CHR 0x0C), (CHR ''n'', CHR 0x0A),
             (CHR ''r'', CHR 0x0D), (CHR ''t'', CHR 0x09)] e"

text \<open>
  The UTF-8 bytes of the code unit written \<^verbatim>\<open>\uXXXX\<close>, from the bits of its four
  hexadecimal digits (most significant digit first, bits least significant first). A surrogate
  is encoded on its own, in three bytes.
\<close>

fun utf8_of_unit ::
  "(bool \<times> bool \<times> bool \<times> bool) \<Rightarrow> (bool \<times> bool \<times> bool \<times> bool) \<Rightarrow>
   (bool \<times> bool \<times> bool \<times> bool) \<Rightarrow> (bool \<times> bool \<times> bool \<times> bool) \<Rightarrow> string" where
  "utf8_of_unit (c12, c13, c14, c15) (c8, c9, c10, c11) (c4, c5, c6, c7) (c0, c1, c2, c3) =
     (if \<not> (c7 \<or> c8 \<or> c9 \<or> c10 \<or> c11 \<or> c12 \<or> c13 \<or> c14 \<or> c15)
      then [Char c0 c1 c2 c3 c4 c5 c6 False]
      else if \<not> (c11 \<or> c12 \<or> c13 \<or> c14 \<or> c15)
      then [Char c6 c7 c8 c9 c10 False True True, Char c0 c1 c2 c3 c4 c5 False True]
      else [Char c12 c13 c14 c15 False True True True, Char c6 c7 c8 c9 c10 c11 False True,
            Char c0 c1 c2 c3 c4 c5 False True])"

text \<open>A string literal after its opening quote: the decoded text and what follows the closing quote.\<close>

fun json_string_body :: "string \<Rightarrow> string \<Rightarrow> (string \<times> string) option" where
  "json_string_body acc [] = None"
| "json_string_body acc (c # r) =
     (if c = CHR 0x22 then Some (rev acc, r)
      else if c = CHR 0x5C then
        (case r of
           [] \<Rightarrow> None
         | e # r' \<Rightarrow>
             if e = CHR ''u'' then
               (case r' of
                  h1 # h2 # h3 # h4 # r'' \<Rightarrow>
                    (case (hex_nibble h1, hex_nibble h2, hex_nibble h3, hex_nibble h4) of
                       (Some n1, Some n2, Some n3, Some n4) \<Rightarrow>
                         json_string_body (rev (utf8_of_unit n1 n2 n3 n4) @ acc) r''
                     | _ \<Rightarrow> None)
                | _ \<Rightarrow> None)
             else
               (case simple_escape e of
                  Some d \<Rightarrow> json_string_body (d # acc) r'
                | None \<Rightarrow> None))
      else if is_control c then None
      else json_string_body (c # acc) r)"

text \<open>The number grammar: \<^verbatim>\<open>-?(0|[1-9][0-9]*)(\.[0-9]+)?([eE][+-]?[0-9]+)?\<close>.\<close>

definition num_int :: "string \<Rightarrow> string option" where
  "num_int s =
     (case s of
        [] \<Rightarrow> None
      | c # r \<Rightarrow> if c = CHR ''0'' then Some r
                 else if is_digit c then Some (dropWhile is_digit r) else None)"

definition num_frac :: "string \<Rightarrow> string option" where
  "num_frac s =
     (case s of
        [] \<Rightarrow> Some []
      | c # r \<Rightarrow> if c = CHR ''.'' then
                   (if takeWhile is_digit r \<noteq> [] then Some (dropWhile is_digit r) else None)
                 else Some s)"

definition num_exp :: "string \<Rightarrow> string option" where
  "num_exp s =
     (case s of
        [] \<Rightarrow> Some []
      | c # r \<Rightarrow> if c = CHR ''e'' \<or> c = CHR ''E'' then
                   (let r' = (case r of d # r2 \<Rightarrow> if d = CHR ''+'' \<or> d = CHR ''-'' then r2 else r
                                      | [] \<Rightarrow> r) in
                    if takeWhile is_digit r' \<noteq> [] then Some (dropWhile is_digit r') else None)
                 else Some s)"

definition json_number_ok :: "string \<Rightarrow> bool" where
  "json_number_ok s =
     (case num_int (case s of c # r \<Rightarrow> if c = CHR ''-'' then r else s | [] \<Rightarrow> s) of
        None \<Rightarrow> False
      | Some r1 \<Rightarrow> (case num_frac r1 of None \<Rightarrow> False | Some r2 \<Rightarrow> num_exp r2 = Some []))"

definition is_num_char :: "char \<Rightarrow> bool" where
  "is_num_char c = (is_digit c \<or> c \<in> set ''-+.eE'')"

text \<open>
  The recursive-descent parser: a value, the rest of an array after its opening bracket, the
  rest of an object after its opening brace. Each returns the value and the unread text. The
  tests on lengths only say that reading consumes input. A repeated key keeps its first place
  and takes the last value.
\<close>

function json_value :: "platform \<Rightarrow> string \<Rightarrow> (jsval \<times> string) option"
  and json_elements :: "platform \<Rightarrow> jsval list \<Rightarrow> string \<Rightarrow> (jsval \<times> string) option"
  and json_members :: "platform \<Rightarrow> props \<Rightarrow> string \<Rightarrow> (jsval \<times> string) option"
where
  "json_value P s =
     (case s of
        [] \<Rightarrow> None
      | c # r \<Rightarrow>
          if c = CHR 0x7B then
            (case skip_ws r of
               [] \<Rightarrow> None
             | d # r' \<Rightarrow> if d = CHR 0x7D then Some (JObj [], r')
                         else json_members P [] (skip_ws r))
          else if c = CHR 0x5B then
            (case skip_ws r of
               [] \<Rightarrow> None
             | d # r' \<Rightarrow> if d = CHR 0x5D then Some (JArr [], r')
                         else json_elements P [] (skip_ws r))
          else if c = CHR 0x22 then
            (case json_string_body [] r of
               None \<Rightarrow> None
             | Some (str, r') \<Rightarrow> Some (JStr str, r'))
          else if startsWith ''true'' s then Some (JBool True, drop 4 s)
          else if startsWith ''false'' s then Some (JBool False, drop 5 s)
          else if startsWith ''null'' s then Some (JNull, drop 4 s)
          else
            (let lexeme = takeWhile is_num_char s in
             if json_number_ok lexeme
             then Some (JNum (json_number P lexeme), dropWhile is_num_char s)
             else None))"
| "json_elements P acc s =
     (case json_value P s of
        None \<Rightarrow> None
      | Some (v, r) \<Rightarrow>
          if length r < length s then
            (case skip_ws r of
               [] \<Rightarrow> None
             | c # r' \<Rightarrow>
                 if c = CHR '','' then json_elements P (acc @ [v]) (skip_ws r')
                 else if c = CHR 0x5D then Some (JArr (acc @ [v]), r')
                 else None)
          else None)"
| "json_members P acc s =
     (case s of
        [] \<Rightarrow> None
      | c # r \<Rightarrow>
          if c = CHR 0x22 then
            (case json_string_body [] r of
               None \<Rightarrow> None
             | Some (key, r1) \<Rightarrow>
                 if length r1 \<le> length r then
                   (case skip_ws r1 of
                      [] \<Rightarrow> None
                    | d # r2 \<Rightarrow>
                        if d = CHR '':'' then
                          (case json_value P (skip_ws r2) of
                             None \<Rightarrow> None
                           | Some (v, r3) \<Rightarrow>
                               if length r3 < length s then
                                 (case skip_ws r3 of
                                    [] \<Rightarrow> None
                                  | e # r4 \<Rightarrow>
                                      if e = CHR '','' then
                                        json_members P (obj_set key v acc) (skip_ws r4)
                                      else if e = CHR 0x7D then
                                        Some (JObj (obj_set key v acc), r4)
                                      else None)
                               else None)
                        else None)
                 else None)
          else None)"
  by pat_completeness auto
termination
proof (relation "measure (\<lambda>x. case x of
          Inl (P, s) \<Rightarrow> 2 * length s
        | Inr (Inl (P, acc, s)) \<Rightarrow> 2 * length s + 1
        | Inr (Inr (P, acc, s)) \<Rightarrow> 2 * length s + 1)", goal_cases)
  case 1
  show ?case by simp
next
  case (2 P s c r d r')
  have "length (skip_ws r) \<le> length r" by (simp add: skip_ws_def length_dropWhile_le)
  with 2 show ?case by simp
next
  case (3 P s c r d r')
  have "length (skip_ws r) \<le> length r" by (simp add: skip_ws_def length_dropWhile_le)
  with 3 show ?case by simp
next
  case (4 P acc s)
  show ?case by simp
next
  case (5 P acc s x v r c r')
  have "length (skip_ws r') \<le> length r'" "length (skip_ws r) \<le> length r"
    by (simp_all add: skip_ws_def length_dropWhile_le)
  with 5 show ?case by simp
next
  case (6 P acc s c r x key r1 d r2)
  have "length (skip_ws r2) \<le> length r2" "length (skip_ws r1) \<le> length r1"
    by (simp_all add: skip_ws_def length_dropWhile_le)
  with 6 show ?case by simp
next
  case (7 P acc s c r x key r1 d r2 y v r3 e r4)
  have "length (skip_ws r4) \<le> length r4" "length (skip_ws r3) \<le> length r3"
    by (simp_all add: skip_ws_def length_dropWhile_le)
  with 7 show ?case by simp
qed

declare json_value.simps [simp del] json_elements.simps [simp del] json_members.simps [simp del]

text \<open>\<^verbatim>\<open>JSON.parse(text)\<close>; \<open>None\<close> when it throws.\<close>

definition json_parse :: "platform \<Rightarrow> string \<Rightarrow> jsval option" where
  "json_parse P s =
     (case json_value P (skip_ws s) of
        None \<Rightarrow> None
      | Some (v, r) \<Rightarrow> if skip_ws r = [] then Some v else None)"

text \<open>\<^verbatim>\<open>safeJsonParse\<close>: null for an empty text and for a text that does not parse.\<close>

definition safeJsonParse :: "platform \<Rightarrow> string \<Rightarrow> jsval" where
  "safeJsonParse P v =
     (if v = [] then JNull
      else case json_parse P v of Some parsed \<Rightarrow> parsed | None \<Rightarrow> JNull)"

text \<open>\<^verbatim>\<open>JSON.stringify(v)\<close> without indentation, for a value other than undefined.\<close>

definition json_escape_char :: "char \<Rightarrow> string" where
  "json_escape_char c =
     (case map_of [(CHR 0x22, [CHR 0x5C, CHR 0x22]), (CHR 0x5C, [CHR 0x5C, CHR 0x5C]),
                   (CHR 0x08, [CHR 0x5C, CHR ''b'']), (CHR 0x0C, [CHR 0x5C, CHR ''f'']),
                   (CHR 0x0A, [CHR 0x5C, CHR ''n'']), (CHR 0x0D, [CHR 0x5C, CHR ''r'']),
                   (CHR 0x09, [CHR 0x5C, CHR ''t''])] c of
        Some e \<Rightarrow> e
      | None \<Rightarrow>
          if is_control c then
            (case c of Char b0 b1 b2 b3 b4 b5 b6 b7 \<Rightarrow>
               [CHR 0x5C, CHR ''u'', CHR ''0'', CHR ''0'',
                lower_char (nibble_hex b4 b5 b6 b7), lower_char (nibble_hex b0 b1 b2 b3)])
          else [c])"

definition json_quote :: "string \<Rightarrow> string" where
  "json_quote s = [CHR 0x22] @ concat (map json_escape_char s) @ [CHR 0x22]"

fun json_stringify :: "jsval \<Rightarrow> string" where
  "json_stringify JUndefined = ''undefined''"
| "json_stringify JNull = ''null''"
| "json_stringify (JBool b) = (if b then ''true'' else ''false'')"
| "json_stringify (JNum n) =
     (if n = ''NaN'' \<or> n = ''Infinity'' \<or> n = ''-Infinity'' then ''null'' else n)"
| "json_stringify (JStr s) = json_quote s"
| "json_stringify (JArr xs) =
     ''['' @ join '','' (map (\<lambda>x. if x = JUndefined then ''null'' else json_stringify x) xs) @ '']''"
| "json_stringify (JObj ps) =
     ''{'' @ join '','' (map (\<lambda>(k, v). json_quote k @ '':'' @ json_stringify v)
                          (filter (\<lambda>(k, v). v \<noteq> JUndefined) ps)) @ ''}''"

section \<open>Directives and the template parser\<close>

text \<open>\<^verbatim>\<open>a || b\<close>.\<close>

definition js_or :: "jsval \<Rightarrow> jsval \<Rightarrow> jsval" where
  "js_or a b = (if truthy a then a else b)"

text \<open>
  \<^verbatim>\<open>{ ...a, ...v }\<close>: the entries of \<open>v\<close> are set, one after the other, on the copy of
  \<open>a\<close>.
\<close>

definition spread_onto :: "props \<Rightarrow> jsval \<Rightarrow> props" where
  "spread_onto base v = obj_assign base (entries v)"

text \<open>\<^verbatim>\<open>s.match(re)\<close> without the global flag: the first position where the matcher succeeds.\<close>

fun find_first :: "(string \<Rightarrow> 'a option) \<Rightarrow> string \<Rightarrow> 'a option" where
  "find_first m [] = None"
| "find_first m (c # cs) =
     (case m (c # cs) of Some cap \<Rightarrow> Some cap | None \<Rightarrow> find_first m cs)"

text \<open>
  \<^verbatim>\<open>/([,{]\s*)([\w-]+)\s*:/\<close> and \<^verbatim>\<open>/,\s*([}\]])/\<close> of \<^verbatim>\<open>parseObjectLiteral\<close>, at the head of
  the text.
\<close>

definition match_bare_key :: "string \<Rightarrow> ((string \<times> string) \<times> nat) option" where
  "match_bare_key s =
     (case s of
        [] \<Rightarrow> None
      | a # r \<Rightarrow>
          if a = CHR '','' \<or> a = CHR 0x7B then
            (let ws1 = takeWhile is_space r; r1 = dropWhile is_space r;
                 word = takeWhile is_word_dash r1; r2 = dropWhile is_word_dash r1;
                 ws2 = takeWhile is_space r2; r3 = dropWhile is_space r2 in
             if word \<noteq> [] \<and> r3 \<noteq> [] \<and> hd r3 = CHR '':''
             then Some ((a # ws1, word), length ws1 + length word + length ws2 + 2)
             else None)
          else None)"

definition match_trailing_comma :: "string \<Rightarrow> (char \<times> nat) option" where
  "match_trailing_comma s =
     (case s of
        [] \<Rightarrow> None
      | a # r \<Rightarrow>
          if a = CHR '','' then
            (let ws = takeWhile is_space r; r1 = dropWhile is_space r in
             if r1 \<noteq> [] \<and> (hd r1 = CHR 0x7D \<or> hd r1 = CHR 0x5D)
             then Some (hd r1, length ws + 2) else None)
          else None)"

definition parseObjectLiteral :: "platform \<Rightarrow> string \<Rightarrow> jsval" where
  "parseObjectLiteral P raw =
     (let cleaned = trim raw in
      if \<not> startsWith ''{'' cleaned then JNull
      else
        (let c1 = map (\<lambda>c. if c = CHR 0x60 then CHR 0x22 else c) cleaned;
             c2 = map (\<lambda>c. if c = CHR 0x27 then CHR 0x22 else c) c1;
             c3 = replace_all match_bare_key
                    (\<lambda>(lead, word). lead @ [CHR 0x22] @ word @ [CHR 0x22, CHR '':'']) c2;
             c4 = replace_all match_trailing_comma (\<lambda>close. [close]) c3
         in safeJsonParse P c4))"

text \<open>
  \<^verbatim>\<open>#name\{([\s\S]*?)\}\<close> with the flag \<^verbatim>\<open>i\<close>, at the head of the text: the capture runs to the
  first closing brace. The result is the capture and the length of the match.
\<close>

definition match_directive :: "string \<Rightarrow> string \<Rightarrow> (string \<times> nat) option" where
  "match_directive name s =
     (case s of
        [] \<Rightarrow> None
      | c # r \<Rightarrow>
          if c = CHR ''#'' \<and> toLowerCase (take (length name) r) = toLowerCase name then
            (case drop (length name) r of
               [] \<Rightarrow> None
             | b # r' \<Rightarrow>
                 if b = CHR 0x7B \<and> CHR 0x7D \<in> set r'
                 then (let cap = takeWhile (\<lambda>x. x \<noteq> CHR 0x7D) r' in
                       Some (cap, length name + length cap + 3))
                 else None)
          else None)"

definition extractDirective :: "string \<Rightarrow> string \<Rightarrow> string option" where
  "extractDirective raw name =
     (case find_first (match_directive name) raw of
        None \<Rightarrow> None
      | Some (cap, n) \<Rightarrow> Some (trim cap))"

text \<open>The alternation \<^verbatim>\<open>#(?:body|header)\{[\s\S]*?\}\<close>: the first name that matches.\<close>

fun match_directives :: "string list \<Rightarrow> string \<Rightarrow> (string \<times> nat) option" where
  "match_directives [] s = None"
| "match_directives (name # names) s =
     (case match_directive name s of Some m \<Rightarrow> Some m | None \<Rightarrow> match_directives names s)"

definition stripDirectives :: "string \<Rightarrow> string list \<Rightarrow> string" where
  "stripDirectives raw names =
     (if raw = [] then raw else replace_all (match_directives names) (\<lambda>cap. []) raw)"

text \<open>One \<^verbatim>\<open>key=value\<close> or \<^verbatim>\<open>key:value\<close> part, as the loops of \<^verbatim>\<open>parseHeaderDirective\<close> and
  \<^verbatim>\<open>parseNoteVariables\<close> read it.\<close>

definition set_pair :: "string \<Rightarrow> props \<Rightarrow> props" where
  "set_pair pair acc =
     (case (case indexOf CHR ''='' pair of Some i \<Rightarrow> Some i | None \<Rightarrow> indexOf CHR '':'' pair) of
        None \<Rightarrow> acc
      | Some sepIndex \<Rightarrow>
          if sepIndex = 0 then acc
          else (let key = trim (take sepIndex pair); val = trim (drop (sepIndex + 1) pair) in
                if key \<noteq> [] then obj_set key (JStr val) acc else acc))"

definition parseHeaderDirective :: "platform \<Rightarrow> string \<Rightarrow> jsval" where
  "parseHeaderDirective P raw =
     (let trimmed = trim raw in
      if trimmed = [] then JNull
      else
        (let obj = (if startsWith ''{'' trimmed
                    then js_or (parseObjectLiteral P trimmed) (safeJsonParse P trimmed)
                    else JNull) in
         if truthy obj then obj
         else
           (let pairs = filter (\<lambda>p. p \<noteq> [])
                          (map trim (split_on (\<lambda>c. c \<in> set [CHR ''&'', CHR '';'', CHR 0x0A]) trimmed)) in
            if pairs = [] then JNull
            else (let headers = fold set_pair pairs [] in
                  if headers \<noteq> [] then JObj headers else JNull))))"

definition parseNoteVariables :: "platform \<Rightarrow> string option \<Rightarrow> props" where
  "parseNoteVariables P note =
     (case note of
        None \<Rightarrow> []
      | Some n \<Rightarrow>
          (let trimmed = trim n in
           if trimmed = [] then []
           else
             (let parsed = (if startsWith ''{'' trimmed then safeJsonParse P trimmed else JNull) in
              if truthy parsed \<and> typeof_object parsed then
                fold (\<lambda>(key, val) vars.
                        if val = JUndefined \<or> val = JNull then vars
                        else obj_set key (JStr (to_string val)) vars)
                  (entries parsed) []
              else
                fold set_pair
                  (filter (\<lambda>p. p \<noteq> [])
                     (map trim (split_on (\<lambda>c. c \<in> set [CHR ''&'', CHR '';'', CHR 0x0D, CHR 0x0A])
                                  trimmed)))
                  [])))"

definition parseKeyValuePairs :: "platform \<Rightarrow> string \<Rightarrow> jsval" where
  "parseKeyValuePairs P raw =
     (let trimmed = trim raw in
      if trimmed = [] then JNull
      else if startsWith ''{'' trimmed then
        (let obj = js_or (parseObjectLiteral P trimmed) (safeJsonParse P trimmed) in
         js_or obj JNull)
      else if CHR ''='' \<notin> set trimmed \<and> CHR '':'' \<notin> set trimmed then JNull
      else
        (let result = obj_assign [] (usp_entries (usp_parse trimmed)) in
         if result \<noteq> [] then JObj result else JNull))"

text \<open>
  \<^verbatim>\<open>CustomRequestConfig\<close>. A template written as JSON is used as parsed, without a check of
  the types of its fields, so each field is a value of any kind; an absent field is undefined.
\<close>

record config =
  url :: jsval
  http_method :: jsval
  headers :: jsval
  body :: jsval
  bodyType :: jsval

text \<open>\<^verbatim>\<open>applyBodyDirective\<close>; the updated configuration is returned.\<close>

definition applyBodyDirective :: "platform \<Rightarrow> config \<Rightarrow> string \<Rightarrow> config" where
  "applyBodyDirective P cfg directive =
     (let trimmed = trim directive in
      if trimmed = [] then cfg
      else
        (let overrides = parseKeyValuePairs P trimmed in
         if truthy (body cfg) \<and> typeof_object (body cfg) then
           (if truthy overrides
            then cfg\<lparr>body := JObj (spread_onto (entries (body cfg)) overrides)\<rparr>
            else cfg\<lparr>body := JStr trimmed, bodyType := JStr ''raw''\<rparr>)
         else
           (case body cfg of
              JStr b \<Rightarrow>
                if b \<noteq> [] \<and> truthy overrides then
                  cfg\<lparr>body := JStr (usp_to_string
                                      (fold (\<lambda>(key, val). usp_set key (to_string val))
                                         (entries overrides) (usp_parse b))),
                      bodyType := (if \<not> truthy (bodyType cfg) then JStr ''form''
                                   else bodyType cfg)\<rparr>
                else cfg\<lparr>body := JStr trimmed, bodyType := JStr ''raw''\<rparr>
            | _ \<Rightarrow> cfg\<lparr>body := JStr trimmed, bodyType := JStr ''raw''\<rparr>)))"

text \<open>
  The declarations of the snippet syntax, at the head of the text:
  \<^verbatim>\<open>const\s+name\s*=\s*([`'"])([\s\S]*?)\1\<close> gives the text between the quotes, and
  \<^verbatim>\<open>const\s+name\s*=\s*({[\s\S]*?})\<close> the text from the opening brace to the first closing one.
\<close>

definition after_const :: "string \<Rightarrow> string \<Rightarrow> string option" where
  "after_const name s =
     (if startsWith ''const'' s then
        (let r = drop 5 s; r1 = dropWhile is_space r in
         if takeWhile is_space r \<noteq> [] \<and> startsWith name r1 then
           (case dropWhile is_space (drop (length name) r1) of
              [] \<Rightarrow> None
            | e # r3 \<Rightarrow> if e = CHR ''='' then Some (dropWhile is_space r3) else None)
         else None)
      else None)"

definition match_const_string :: "string \<Rightarrow> string \<Rightarrow> string option" where
  "match_const_string name s =
     (case after_const name s of
        None \<Rightarrow> None
      | Some [] \<Rightarrow> None
      | Some (q # r5) \<Rightarrow>
          if (q = CHR 0x60 \<or> q = CHR 0x27 \<or> q = CHR 0x22) \<and> q \<in> set r5
          then Some (takeWhile (\<lambda>x. x \<noteq> q) r5) else None)"

definition match_const_object :: "string \<Rightarrow> string \<Rightarrow> string option" where
  "match_const_object name s =
     (case after_const name s of
        None \<Rightarrow> None
      | Some [] \<Rightarrow> None
      | Some (b # r5) \<Rightarrow>
          if b = CHR 0x7B \<and> CHR 0x7D \<in> set r5
          then Some (b # takeWhile (\<lambda>x. x \<noteq> CHR 0x7D) r5 @ [CHR 0x7D]) else None)"

definition config_of_json :: "jsval \<Rightarrow> config" where
  "config_of_json parsed =
     \<lparr>url = get_prop parsed ''url'', http_method = get_prop parsed ''method'',
      headers = get_prop parsed ''headers'', body = get_prop parsed ''body'',
      bodyType = get_prop parsed ''bodyType''\<rparr>"

definition parse_snippet :: "platform \<Rightarrow> string \<Rightarrow> config option" where
  "parse_snippet P trimmed =
     (case find_first (match_const_string ''url'') trimmed of
        None \<Rightarrow> None
      | Some urlMatch \<Rightarrow>
          (let methodMatch = find_first (match_const_string ''method'') trimmed;
               headersMatch = find_first (match_const_object ''headers'') trimmed;
               bodyTypeMatch = find_first (match_const_string ''bodyType'') trimmed;
               bodyObjectMatch = find_first (match_const_object ''body'') trimmed;
               bodyStringMatch = find_first (match_const_string ''body'') trimmed;
               hdrs = (case headersMatch of
                         Some h \<Rightarrow> js_or (parseObjectLiteral P h) JUndefined
                       | None \<Rightarrow> JUndefined);
               bdy = (case bodyObjectMatch of
                        Some b \<Rightarrow> js_or (js_or (parseObjectLiteral P b) (safeJsonParse P b)) JUndefined
                      | None \<Rightarrow> (case bodyStringMatch of Some b \<Rightarrow> JStr b | None \<Rightarrow> JUndefined));
               rawBodyType = map_option (\<lambda>t. toLowerCase (trim t)) bodyTypeMatch;
               explicitBodyType =
                 (case rawBodyType of
                    Some t \<Rightarrow> if t = ''json'' \<or> t = ''form'' \<or> t = ''raw'' then JStr t else JUndefined
                  | None \<Rightarrow> JUndefined);
               inferredBodyType =
                 (if typeof_object bdy then JStr ''form''
                  else case bdy of
                         JStr b \<Rightarrow> if CHR ''='' \<in> set b then JStr ''form'' else JStr ''raw''
                       | _ \<Rightarrow> JUndefined)
           in Some \<lparr>url = JStr urlMatch,
                    http_method = (case methodMatch of Some m \<Rightarrow> JStr m | None \<Rightarrow> JUndefined),
                    headers = hdrs, body = bdy,
                    bodyType = js_or explicitBodyType inferredBodyType\<rparr>))"

text \<open>
  Lines 295 to 300: the header directive of the template text, when found and not empty, is
  merged onto the headers of the template by a plain spread.
\<close>

definition apply_template_header_directive :: "platform \<Rightarrow> string option \<Rightarrow> config \<Rightarrow> config" where
  "apply_template_header_directive P headerDirective cfg =
     (case headerDirective of
        None \<Rightarrow> cfg
      | Some d \<Rightarrow>
          if d = [] then cfg
          else
            (let headerOverrides = parseHeaderDirective P d in
             if truthy headerOverrides
             then cfg\<lparr>headers := JObj (spread_onto (entries (js_or (headers cfg) (JObj [])))
                                         headerOverrides)\<rparr>
             else cfg))"

text \<open>\<^verbatim>\<open>if (bodyDirective) applyBodyDirective(config, bodyDirective)\<close>.\<close>

definition apply_body_directive_opt :: "platform \<Rightarrow> string option \<Rightarrow> config \<Rightarrow> config" where
  "apply_body_directive_opt P bodyDirective cfg =
     (case bodyDirective of
        None \<Rightarrow> cfg
      | Some d \<Rightarrow> if d = [] then cfg else applyBodyDirective P cfg d)"

definition parseRequestTemplate :: "platform \<Rightarrow> string \<Rightarrow> config option" where
  "parseRequestTemplate P raw =
     (let bodyDirective = extractDirective raw ''body'';
          headerDirective = extractDirective raw ''header'';
          trimmed = trim (replace_all (match_directives [''body'', ''header'']) (\<lambda>cap. []) raw)
      in
      if trimmed = [] then None
      else
        (case (if startsWith ''{'' trimmed then
                 (let parsed = safeJsonParse P trimmed in
                  if truthy (opt_prop parsed ''url'') then Some (config_of_json parsed) else None)
               else parse_snippet P trimmed) of
           None \<Rightarrow> None
         | Some cfg \<Rightarrow>
             Some (apply_body_directive_opt P bodyDirective
                     (apply_template_header_directive P headerDirective cfg))))"

section \<open>Response evaluation\<close>

definition parseResponseTemplate :: "platform \<Rightarrow> string option \<Rightarrow> jsval" where
  "parseResponseTemplate P raw =
     (case raw of
        None \<Rightarrow> JNull
      | Some r \<Rightarrow> if r = [] then JNull else js_or (safeJsonParse P r) JNull)"

text \<open>
  \<^verbatim>\<open>/^[a-zA-Z_$][\w$]*\(([\s\S]*)\)\s*;?$/\<close>: an identifier, an opening parenthesis, and at the
  end a closing parenthesis, white space and at most one semicolon. The capture is what lies
  between the two parentheses.
\<close>

definition jsonp_inner :: "string \<Rightarrow> string option" where
  "jsonp_inner s =
     (case s of
        [] \<Rightarrow> None
      | c # r \<Rightarrow>
          if is_alpha c \<or> c = CHR ''_'' \<or> c = CHR ''$'' then
            (case dropWhile (\<lambda>x. is_word x \<or> x = CHR ''$'') r of
               [] \<Rightarrow> None
             | p # r1 \<Rightarrow>
                 if p = CHR ''('' then
                   (let t = rev r1;
                        t1 = (case t of x # t' \<Rightarrow> if x = CHR '';'' then t' else t | [] \<Rightarrow> t);
                        t2 = dropWhile is_space t1 in
                    case t2 of
                      [] \<Rightarrow> None
                    | y # t3 \<Rightarrow> if y = CHR '')'' then Some (rev t3) else None)
                 else None)
          else None)"

definition tryParseJsonFromText :: "platform \<Rightarrow> string \<Rightarrow> jsval" where
  "tryParseJsonFromText P txt =
     (if txt = [] then JNull
      else
        (let trimmed = trim txt in
         if trimmed = [] then JNull
         else
           (let candidate = (case jsonp_inner trimmed of Some inner \<Rightarrow> inner | None \<Rightarrow> trimmed);
                direct = safeJsonParse P candidate in
            if truthy direct then direct
            else
              (case (indexOf CHR 0x7B trimmed, lastIndexOf CHR 0x7D trimmed) of
                 (Some firstBrace, Some lastBrace) \<Rightarrow>
                   if lastBrace > firstBrace
                   then safeJsonParse P (take (lastBrace + 1 - firstBrace) (drop firstBrace trimmed))
                   else JNull
               | _ \<Rightarrow> JNull))))"

text \<open>\<^verbatim>\<open>Number(v)\<close>, as canonical number text.\<close>

fun to_number :: "platform \<Rightarrow> jsval \<Rightarrow> string" where
  "to_number P JUndefined = ''NaN''"
| "to_number P JNull = ''0''"
| "to_number P (JBool b) = (if b then ''1'' else ''0'')"
| "to_number P (JNum n) = n"
| "to_number P (JStr s) = string_to_number P s"
| "to_number P v = string_to_number P (to_string v)"

record discount_info =
  plate :: string
  discountcharge :: string
  needcharge :: string
  entertime :: string
  staytime :: string

definition extractDiscountInfo :: "platform \<Rightarrow> jsval \<Rightarrow> discount_info option" where
  "extractDiscountInfo P jsonResponse =
     (if \<not> truthy jsonResponse then None
      else
        (case get_prop jsonResponse ''info'' of
           JObj info \<Rightarrow>
             if \<not> has_own info ''discountcharge'' then None
             else Some \<lparr>plate = to_string (js_or (obj_get info ''plate'') (JStr [])),
                        discountcharge = to_number P (js_or (obj_get info ''discountcharge'') (JNum ''0'')),
                        needcharge = to_string (js_or (obj_get info ''needcharge'') (JStr ''0'')),
                        entertime = to_string (js_or (obj_get info ''entertime'') (JStr [])),
                        staytime = to_string (js_or (obj_get info ''staytime'') (JStr []))\<rparr>
         | _ \<Rightarrow> None))"

text \<open>
  \<^verbatim>\<open>getValueByPath(obj, path)\<close> where the path comes from a parsed rule and may be any value:
  a falsy path gives undefined, and a truthy path that is not a string has no
  \<^verbatim>\<open>replace\<close> method.
\<close>

definition value_at :: "jsval \<Rightarrow> jsval \<Rightarrow> js_error + jsval" where
  "value_at obj path =
     (if \<not> truthy path then Inr JUndefined
      else case path of JStr p \<Rightarrow> Inr (getValueByPath obj p) | _ \<Rightarrow> Inl TypeError)"

record evaluated =
  ev_success :: bool
  ev_message :: "string option"
  ev_redirectUrl :: "string option"
  ev_json :: jsval

text \<open>The success decision of the JSON mode, for a truthy rule.\<close>

definition json_success :: "platform \<Rightarrow> jsval \<Rightarrow> jsval \<Rightarrow> js_error + bool" where
  "json_success P json successRule =
     (case value_at json (get_prop successRule ''path'') of
        Inl e \<Rightarrow> Inl e
      | Inr targetValue \<Rightarrow>
          if get_prop successRule ''equals'' \<noteq> JUndefined then
            Inr (strict_eq targetValue (get_prop successRule ''equals'')
                 \<or> to_string targetValue = to_string (get_prop successRule ''equals''))
          else if truthy (get_prop successRule ''regex'') then
            regexp_test P (to_string (get_prop successRule ''regex''))
              (if targetValue \<noteq> JUndefined then to_string targetValue else json_stringify json)
          else if truthy (get_prop successRule ''path'') then Inr (truthy targetValue)
          else Inr False)"

text \<open>Line 368: the type of a truthy rule, given or inferred from its path fields.\<close>

definition effective_type :: "jsval \<Rightarrow> jsval" where
  "effective_type cfg =
     js_or (get_prop cfg ''type'')
       (if truthy (opt_prop (get_prop cfg ''success'') ''path'') \<or> truthy (get_prop cfg ''messagePath'')
           \<or> truthy (get_prop cfg ''redirectPath'')
        then JStr ''json'' else JStr ''text'')"

definition evaluateCustomResponse :: "platform \<Rightarrow> string \<Rightarrow> jsval \<Rightarrow> js_error + evaluated option" where
  "evaluateCustomResponse P responseText cfg =
     (if \<not> truthy cfg then Inr None
      else
        (let successRule = get_prop cfg ''success'' in
         if strict_eq (effective_type cfg) (JStr ''json'') then
           (let json = tryParseJsonFromText P responseText in
            if \<not> truthy json then
              Inr (Some \<lparr>ev_success = False, ev_message = Some ''Invalid JSON response'',
                         ev_redirectUrl = None, ev_json = JUndefined\<rparr>)
            else
              (case (if truthy successRule then json_success P json successRule else Inr False) of
                 Inl e \<Rightarrow> Inl e
               | Inr ok \<Rightarrow>
                   (case value_at json (get_prop cfg ''messagePath'') of
                      Inl e \<Rightarrow> Inl e
                    | Inr messageValue \<Rightarrow>
                        (case value_at json (get_prop cfg ''redirectPath'') of
                           Inl e \<Rightarrow> Inl e
                         | Inr redirectValue \<Rightarrow>
                             Inr (Some \<lparr>ev_success = ok,
                                        ev_message = (if messageValue \<noteq> JUndefined
                                                      then Some (to_string messageValue) else None),
                                        ev_redirectUrl = (case redirectValue of
                                                            JStr u \<Rightarrow> Some u | _ \<Rightarrow> None),
                                        ev_json = json\<rparr>)))))
         else if truthy (opt_prop successRule ''regex'') then
           (case regexp_test P (to_string (opt_prop successRule ''regex'')) responseText of
              Inl e \<Rightarrow> Inl e
            | Inr ok \<Rightarrow> Inr (Some \<lparr>ev_success = ok, ev_message = Some responseText,
                                    ev_redirectUrl = None, ev_json = JUndefined\<rparr>))
         else if opt_prop successRule ''equals'' \<noteq> JUndefined then
           Inr (Some \<lparr>ev_success = str_includes (to_string (opt_prop successRule ''equals'')) responseText,
                      ev_message = Some responseText, ev_redirectUrl = None, ev_json = JUndefined\<rparr>)
         else
           Inr (Some \<lparr>ev_success = False, ev_message = Some responseText,
                      ev_redirectUrl = None, ev_json = JUndefined\<rparr>)))"

section \<open>The submission\<close>

text \<open>The configuration record of a discount type, as the database returns it.\<close>

record discount_type =
  name :: string
  jsessionid :: "string option"
  refererUrl :: "string option"
  scanUrl :: "string option"
  postParams :: "string option"
  useCustomRequest :: bool
  requestTemplate :: "string option"
  responseTemplate :: "string option"

text \<open>The optional third argument; an absent argument is the record of absent fields.\<close>

record context_overrides =
  guestNote :: "string option"
  guestName :: "string option"
  phone :: "string option"
  extra :: props

record request =
  req_url :: string
  req_method :: string
  req_headers :: props
  req_body :: "string option"

record response =
  resp_ok :: bool
  resp_text :: string

record result =
  success :: bool
  message :: "string option"
  rawResponse :: "string option"
  redirectUrl :: "string option"
  discountInfo :: "discount_info option"

text \<open>What a submission does to the outside: it loads a configuration, it sends a request.\<close>

datatype event = DbLoad string | Fetch request

definition failure :: "string \<Rightarrow> result" where
  "failure msg = \<lparr>success = False, message = Some msg, rawResponse = None,
                  redirectUrl = None, discountInfo = None\<rparr>"

text \<open>The \<^verbatim>\<open>catch\<close> block around the whole function.\<close>

definition caught :: result where
  "caught = failure ''Failed to request parking system''"

text \<open>\<^verbatim>\<open>s || undefined\<close> for a nullable string.\<close>

definition str_or_undefined :: "string option \<Rightarrow> jsval" where
  "str_or_undefined s = (case s of Some x \<Rightarrow> if x \<noteq> [] then JStr x else JUndefined | None \<Rightarrow> JUndefined)"

text \<open>\<^verbatim>\<open>noteRaw ? f(noteRaw) : null\<close>.\<close>

definition note_directive :: "string option \<Rightarrow> string \<Rightarrow> string option" where
  "note_directive noteRaw nm =
     (case noteRaw of Some n \<Rightarrow> if n \<noteq> [] then extractDirective n nm else None | None \<Rightarrow> None)"

definition cleaned_note :: "string option \<Rightarrow> string option" where
  "cleaned_note noteRaw =
     (case noteRaw of
        Some n \<Rightarrow> if n \<noteq> [] then Some (trim (stripDirectives n [''body'', ''header''])) else None
      | None \<Rightarrow> None)"

text \<open>Lines 511 to 527: the template context.\<close>

definition build_context ::
  "platform \<Rightarrow> string \<Rightarrow> string \<Rightarrow> discount_type \<Rightarrow> context_overrides \<Rightarrow> props" where
  "build_context P plateNumber discountTypeCode dt ov =
     (let cleanedNote = cleaned_note (guestNote ov);
          noteVars = parseNoteVariables P cleanedNote in
      obj_assign
        (obj_assign
           [(''plate'', JStr plateNumber),
            (''discountType'', JStr discountTypeCode),
            (''jsessionid'', str_or_undefined (jsessionid dt)),
            (''referer'', str_or_undefined (refererUrl dt)),
            (''scanUrl'', str_or_undefined (scanUrl dt)),
            (''note'', str_or_undefined cleanedNote),
            (''name'', str_or_undefined (guestName ov)),
            (''phone'', str_or_undefined (phone ov))]
           noteVars)
        (extra ov))"

text \<open>Lines 529 to 547: the copy of the parsed template with the directives of the note applied.\<close>

definition effective_config :: "platform \<Rightarrow> config \<Rightarrow> string option \<Rightarrow> config" where
  "effective_config P requestConfig noteRaw =
     (let copy = requestConfig
            \<lparr>headers := (if truthy (headers requestConfig)
                          then JObj (entries (headers requestConfig)) else JUndefined),
             body := (if truthy (body requestConfig) \<and> typeof_object (body requestConfig)
                       then JObj (entries (body requestConfig)) else body requestConfig)\<rparr>;
          withHeaders =
            (case note_directive noteRaw ''header'' of
               None \<Rightarrow> copy
             | Some d \<Rightarrow>
                 if d = [] then copy
                 else
                   (let headerOverrides = parseHeaderDirective P d in
                    if truthy headerOverrides
                    then copy\<lparr>headers := JObj (mergeHeaders (entries (js_or (headers copy) (JObj [])))
                                                  (entries headerOverrides))\<rparr>
                    else copy))
      in apply_body_directive_opt P (note_directive noteRaw ''body'') withHeaders)"

definition buildRequestBody :: "jsval \<Rightarrow> jsval \<Rightarrow> props \<Rightarrow> js_error + string option" where
  "buildRequestBody bdy bdyType context =
     (if bdy = JUndefined then Inr None
      else
        (let resolved = replaceTemplates bdy context in
         case resolved of
           JStr s \<Rightarrow> Inr (Some s)
         | _ \<Rightarrow>
             if strict_eq bdyType (JStr ''json'') then Inr (Some (json_stringify resolved))
             else if resolved = JNull \<or> resolved = JUndefined then Inl TypeError
             else Inr (Some (usp_to_string
                               (fold (\<lambda>(key, val). usp_set key (if val = JNull then [] else to_string val))
                                  (entries resolved) [])))))"

text \<open>Lines 549 to 579: the request that is sent, or the exception thrown while building it.\<close>

definition build_request :: "config \<Rightarrow> props \<Rightarrow> js_error + request" where
  "build_request cfg context =
     (case url cfg of
        JStr u \<Rightarrow>
          (case js_or (http_method cfg) (JStr ''POST'') of
             JStr m \<Rightarrow>
               (let target = applyTemplate u context;
                    meth = toUpperCase m;
                    hdrs0 = entries (js_or (headers cfg) (JObj []));
                    hdrs1 = (if \<not> hasHeader hdrs0 ''cookie'' \<and> truthy (obj_get context ''jsessionid'')
                             then setHeader hdrs0 ''Cookie''
                                    (''JSESSIONID='' @ to_string (obj_get context ''jsessionid''))
                             else hdrs0);
                    resolved = map (\<lambda>(key, val). (key, JStr (applyTemplate (to_string val) context)))
                                 hdrs1;
                    resolvedHeaders =
                      (if \<not> hasHeader resolved ''referer'' \<and> truthy (obj_get context ''referer'')
                       then setHeader resolved ''Referer'' (to_string (obj_get context ''referer''))
                       else resolved)
                in
                if meth \<noteq> ''GET'' then
                  (let resolvedBodyType =
                         js_or (bodyType cfg)
                           (if typeof_object (body cfg) then JStr ''form'' else JUndefined) in
                   case buildRequestBody (body cfg) resolvedBodyType context of
                     Inl e \<Rightarrow> Inl e
                   | Inr b \<Rightarrow>
                       Inr \<lparr>req_url = target, req_method = meth,
                            req_headers =
                              (if strict_eq resolvedBodyType (JStr ''json'') then
                                 (if \<not> hasHeader resolvedHeaders ''content-type''
                                  then setHeader resolvedHeaders ''Content-Type'' ''application/json''
                                  else resolvedHeaders)
                               else if strict_eq resolvedBodyType (JStr ''form'') then
                                 (if \<not> hasHeader resolvedHeaders ''content-type''
                                  then setHeader resolvedHeaders ''Content-Type''
                                         ''application/x-www-form-urlencoded; charset=UTF-8''
                                  else resolvedHeaders)
                               else resolvedHeaders),
                            req_body = b\<rparr>)
                else
                  Inr \<lparr>req_url = target, req_method = meth, req_headers = resolvedHeaders,
                       req_body = None\<rparr>)
           | _ \<Rightarrow> Inl TypeError)
      | _ \<Rightarrow> Inl TypeError)"

text \<open>Lines 587 to 615: the result of the custom flow from the response.\<close>

definition custom_result :: "platform \<Rightarrow> jsval \<Rightarrow> response \<Rightarrow> js_error + result" where
  "custom_result P customResponse resp =
     (let responseText = resp_text resp in
      case evaluateCustomResponse P responseText customResponse of
        Inl e \<Rightarrow> Inl e
      | Inr (Some ev) \<Rightarrow>
          Inr \<lparr>success = ev_success ev, message = ev_message ev, rawResponse = Some responseText,
               redirectUrl = ev_redirectUrl ev,
               discountInfo = extractDiscountInfo P (ev_json ev)\<rparr>
      | Inr None \<Rightarrow>
          (let jsonResponse = tryParseJsonFromText P responseText in
           case extractDiscountInfo P (js_or jsonResponse JUndefined) of
             Some info \<Rightarrow>
               Inr \<lparr>success = True, message = None, rawResponse = Some responseText,
                    redirectUrl = None, discountInfo = Some info\<rparr>
           | None \<Rightarrow>
               Inr \<lparr>success = resp_ok resp,
                    message = (if resp_ok resp then None else Some ''Request failed''),
                    rawResponse = Some responseText, redirectUrl = None, discountInfo = None\<rparr>))"

definition PARKING_API_URL :: string where
  "PARKING_API_URL =
     ''http://www.szdaqin.cn/shopDiscount/goDicount.do?responseFunction=goDicount&querytype=0''"

definition DEFAULT_BODY_PARAMS :: props where
  "DEFAULT_BODY_PARAMS =
     [(''id'', JStr ''8''), (''businessid'', JStr ''3''), (''parkid'', JStr ''229''),
      (''type'', JStr ''null''), (''serialNumber'', JStr []), (''orderno'', JStr []),
      (''totalcount'', JStr ''1'')]"

text \<open>Lines 625 to 658: the request of the legacy flow.\<close>

definition legacy_request :: "platform \<Rightarrow> string \<Rightarrow> discount_type \<Rightarrow> string \<Rightarrow> request" where
  "legacy_request P plateNumber dt sessionId =
     (let storedPostParams = (case postParams dt of Some pp \<Rightarrow> safeJsonParse P pp | None \<Rightarrow> JNull);
          hdrs = [(''X-Requested-With'', JStr ''XMLHttpRequest''),
                  (''Content-Type'', JStr ''application/x-www-form-urlencoded; charset=UTF-8''),
                  (''Origin'', JStr ''http://www.szdaqin.cn''),
                  (''Accept'', JStr ''text/plain, */*; q=0.01''),
                  (''Accept-Language'', JStr ''zh-CN,zh;q=0.9,en;q=0.8''),
                  (''User-Agent'', JStr ''Mozilla/5.0 (iPhone; CPU iPhone OS 18_7 like Mac OS X) AppleWebKit/605.1.15 (KHTML, like Gecko) Version/26.2 Mobile/15E148 Safari/604.1''),
                  (''Cookie'', JStr (''JSESSIONID='' @ sessionId))];
          bodyParams = obj_set ''plate'' (JStr plateNumber)
                         (spread_onto DEFAULT_BODY_PARAMS (js_or storedPostParams (JObj [])))
      in \<lparr>req_url = PARKING_API_URL, req_method = ''POST'',
          req_headers = (case refererUrl dt of
                           Some r \<Rightarrow> if r \<noteq> [] then obj_set ''Referer'' (JStr r) hdrs else hdrs
                         | None \<Rightarrow> hdrs),
          req_body = Some (usp_to_string (map (\<lambda>(k, v). (k, to_string v)) bodyParams))\<rparr>)"

text \<open>Lines 660 to 686: the result of the legacy flow from the response.\<close>

definition legacy_result :: "platform \<Rightarrow> response \<Rightarrow> result" where
  "legacy_result P resp =
     (let responseText = resp_text resp;
          jsonResponse = tryParseJsonFromText P responseText in
      case extractDiscountInfo P (js_or jsonResponse JUndefined) of
        Some info \<Rightarrow>
          \<lparr>success = True, message = None, rawResponse = Some responseText,
           redirectUrl = None, discountInfo = Some info\<rparr>
      | None \<Rightarrow>
          (let infoObj = opt_prop jsonResponse ''info'';
               errorMessage =
                 (if truthy infoObj \<and> typeof_object infoObj
                     \<and> truthy (get_prop infoObj ''errmsg'')
                     \<and> \<not> strict_eq (get_prop infoObj ''errmsg'') (JStr ''ok'')
                  then to_string (get_prop infoObj ''errmsg'')
                  else ''Parking discount request failed'')
           in \<lparr>success = False, message = Some errorMessage, rawResponse = Some responseText,
               redirectUrl = None, discountInfo = None\<rparr>))"

text \<open>
  \<^verbatim>\<open>sendParkingDiscount\<close>, after the configuration is loaded. The result comes with the
  requests sent; an exception anywhere is turned into the result of the \<^verbatim>\<open>catch\<close> block.
\<close>

definition submit_with_config ::
  "platform \<Rightarrow> (request \<Rightarrow> js_error + response) \<Rightarrow> string \<Rightarrow> string \<Rightarrow> context_overrides
   \<Rightarrow> discount_type \<Rightarrow> result \<times> event list" where
  "submit_with_config P fetch plateNumber discountTypeCode ov dt =
     (let customRequestRaw = (if useCustomRequest dt
                              then (case requestTemplate dt of Some t \<Rightarrow> trim t | None \<Rightarrow> [])
                              else []);
          customResponse = parseResponseTemplate P (responseTemplate dt) in
      if (case responseTemplate dt of Some r \<Rightarrow> r \<noteq> [] | None \<Rightarrow> False) \<and> \<not> truthy customResponse then
        (failure (''Custom response template parse failed for '' @ name dt), [])
      else if useCustomRequest dt \<and> customRequestRaw = [] then
        (failure (''Custom request enabled but template is empty for '' @ name dt), [])
      else if customRequestRaw \<noteq> [] then
        (case parseRequestTemplate P customRequestRaw of
           None \<Rightarrow> (failure (''Custom request template parse failed for '' @ name dt), [])
         | Some requestConfig \<Rightarrow>
             (let context = build_context P plateNumber discountTypeCode dt ov;
                  effectiveRequestConfig = effective_config P requestConfig (guestNote ov) in
              case build_request effectiveRequestConfig context of
                Inl e \<Rightarrow> (caught, [])
              | Inr req \<Rightarrow>
                  (case fetch req of
                     Inl e \<Rightarrow> (caught, [Fetch req])
                   | Inr resp \<Rightarrow>
                       (case custom_result P customResponse resp of
                          Inl e \<Rightarrow> (caught, [Fetch req])
                        | Inr res \<Rightarrow> (res, [Fetch req])))))
      else
        (case jsessionid dt of
           None \<Rightarrow>
             (failure (''Discount type '' @ name dt @ '' missing Session ID. Configure in settings.''), [])
         | Some sessionId \<Rightarrow>
             if sessionId = [] then
               (failure (''Discount type '' @ name dt @ '' missing Session ID. Configure in settings.''), [])
             else
               (let req = legacy_request P plateNumber dt sessionId in
                case fetch req of
                  Inl e \<Rightarrow> (caught, [Fetch req])
                | Inr resp \<Rightarrow> (legacy_result P resp, [Fetch req]))))"

text \<open>
  \<^verbatim>\<open>sendParkingDiscount\<close>. The database lookup \<open>db\<close> returns the record, null, or throws;
  \<open>fetch\<close> stands for the call and the reading of the response text.
\<close>

definition sendParkingDiscount ::
  "platform \<Rightarrow> (string \<Rightarrow> js_error + discount_type option) \<Rightarrow> (request \<Rightarrow> js_error + response)
   \<Rightarrow> string \<Rightarrow> string \<Rightarrow> context_overrides \<Rightarrow> result \<times> event list" where
  "sendParkingDiscount P db fetch plateNumber discountTypeCode ov =
     (if discountTypeCode = ''none'' then (failure ''Discount type not set'', [])
      else
        (case db discountTypeCode of
           Inl e \<Rightarrow> (caught, [DbLoad discountTypeCode])
         | Inr None \<Rightarrow>
             (failure (''Discount type not found: '' @ discountTypeCode), [DbLoad discountTypeCode])
         | Inr (Some dt) \<Rightarrow>
             (let (res, sent) = submit_with_config P fetch plateNumber discountTypeCode ov dt
              in (res, DbLoad discountTypeCode # sent))))"

text \<open>
  A platform for evaluating examples: the number conversions are the identity, which is what
  the runtime gives on canonical number text such as \<^verbatim>\<open>5\<close> or \<^verbatim>\<open>12.5\<close>, and a pattern is
  searched as a literal, which is what \<^verbatim>\<open>RegExp\<close> does for a pattern without metacharacters.
\<close>

definition ref_platform :: platform where
  "ref_platform =
     \<lparr>json_number = (\<lambda>lexeme. lexeme), string_to_number = (\<lambda>s. s),
      regexp_test = (\<lambda>pattern txt. Inr (str_includes pattern txt))\<rparr>"

section \<open>Template sources, for stating what substitution does\<close>








text \<open>
  The lenient parse as the specification words it: the direct parse of the trimmed text, then
  the parse of what a JSONP wrapper encloses, then the parse of the slice from the first
  opening brace to the last closing one. An attempt succeeds when it gives a truthy value.
\<close>

definition brace_slice :: "string \<Rightarrow> string option" where
  "brace_slice trimmed =
     (case (indexOf CHR 0x7B trimmed, lastIndexOf CHR 0x7D trimmed) of
        (Some firstBrace, Some lastBrace) \<Rightarrow>
          if lastBrace > firstBrace
          then Some (take (lastBrace + 1 - firstBrace) (drop firstBrace trimmed)) else None
      | _ \<Rightarrow> None)"

definition lenient_parse :: "platform \<Rightarrow> string \<Rightarrow> jsval" where
  "lenient_parse P txt =
     (let trimmed = trim txt;
          direct = safeJsonParse P trimmed;
          unwrapped = (case jsonp_inner trimmed of
                         Some inner \<Rightarrow> safeJsonParse P inner | None \<Rightarrow> JNull);
          sliced = (case brace_slice trimmed of
                      Some slice \<Rightarrow> safeJsonParse P slice | None \<Rightarrow> JNull)
      in if truthy direct then direct else if truthy unwrapped then unwrapped else sliced)"

text \<open>
  The three steps on the headers of a request, for stating their order: the cookie of the
  session, the substitution in every value, the referer.
\<close>

definition inject_cookie :: "props \<Rightarrow> props \<Rightarrow> props" where
  "inject_cookie context hs =
     (if \<not> hasHeader hs ''cookie'' \<and> truthy (obj_get context ''jsessionid'')
      then setHeader hs ''Cookie'' (''JSESSIONID='' @ to_string (obj_get context ''jsessionid''))
      else hs)"

definition substitute_values :: "props \<Rightarrow> props \<Rightarrow> props" where
  "substitute_values context hs =
     map (\<lambda>(key, val). (key, JStr (applyTemplate (to_string val) context))) hs"

definition inject_referer :: "props \<Rightarrow> props \<Rightarrow> props" where
  "inject_referer context hs =
     (if \<not> hasHeader hs ''referer'' \<and> truthy (obj_get context ''referer'')
      then setHeader hs ''Referer'' (to_string (obj_get context ''referer''))
      else hs)"

text \<open>A response template that is set and does not parse to a truthy value (line 488).\<close>

definition response_template_broken :: "platform \<Rightarrow> discount_type \<Rightarrow> bool" where
  "response_template_broken P dt =
     (case responseTemplate dt of
        None \<Rightarrow> False
      | Some r \<Rightarrow> r \<noteq> [] \<and> \<not> truthy (parseResponseTemplate P (Some r)))"





definition ident_char :: "char \<Rightarrow> bool" where
  "ident_char x = (is_word x \<or> x = CHR ''$'')"

section \<open>Properties of token substitution\<close>

lemmas char_class_defs = is_name_char_def is_word_def is_alpha_def is_upper_def is_lower_def
  is_digit_def is_space_def


lemma special_not_name [simp]:
  "\<not> is_name_char (CHR 0x7B)" "\<not> is_name_char (CHR 0x7D)" "\<not> is_name_char (CHR ''#'')"
  by (simp_all add: char_class_defs)

lemma special_not_space [simp]:
  "\<not> is_space (CHR 0x7B)" "\<not> is_space (CHR 0x7D)" "\<not> is_space (CHR ''#'')"
  by (simp_all add: char_class_defs)































section \<open>Errors before any request\<close>

text \<open>
  C10. For every plate number and every set of context overrides, a submission with the code
  \<^verbatim>\<open>none\<close> returns the failure ``Discount type not set'' with no configuration loaded
  and no request sent (the trace is empty); a submission with another code for which the
  lookup returns null returns the failure ``Discount type not found: code'' after the one
  lookup, again with no request sent.
\<close>

theorem none_and_unknown_codes:
  "sendParkingDiscount P db fetch plateNumber ''none'' ov
     = (\<lparr>success = False, message = Some ''Discount type not set'', rawResponse = None,
         redirectUrl = None, discountInfo = None\<rparr>, [])
   \<and> (code \<noteq> ''none'' \<and> db code = Inr None \<longrightarrow>
        sendParkingDiscount P db fetch plateNumber code ov
          = (\<lparr>success = False, message = Some (''Discount type not found: '' @ code),
              rawResponse = None, redirectUrl = None, discountInfo = None\<rparr>, [DbLoad code]))"
  by (simp add: sendParkingDiscount_def failure_def)

theorem none_and_unknown_codes_witness:
  "''24hour'' \<noteq> ''none'' \<and> (\<lambda>c. Inr None :: js_error + discount_type option) ''24hour'' = Inr None
   \<and> sendParkingDiscount ref_platform (\<lambda>c. Inr None) (\<lambda>r. Inl NetworkError) ''B12345'' ''24hour''
        \<lparr>guestNote = None, guestName = None, phone = None, extra = []\<rparr>
      = (\<lparr>success = False, message = Some ''Discount type not found: 24hour'',
          rawResponse = None, redirectUrl = None, discountInfo = None\<rparr>, [DbLoad ''24hour''])"
  using none_and_unknown_codes[of ref_platform "\<lambda>c. Inr None" "\<lambda>r. Inl NetworkError" "''B12345''"
      "\<lparr>guestNote = None, guestName = None, phone = None, extra = []\<rparr>" "''24hour''"]
  by simp

text \<open>
  C9. When the response template of the discount type is a non-empty text that
  \<^verbatim>\<open>JSON.parse\<close> rejects, every submission for that type fails with ``Custom response
  template parse failed'', and the only thing done is the lookup: no request is built or sent.
  Nothing is assumed about \<^verbatim>\<open>useCustomRequest\<close>, so this holds in the legacy mode as well.
\<close>

theorem bad_response_template_fails_first:
  assumes "code \<noteq> ''none''" and "db code = Inr (Some dt)"
    and "responseTemplate dt = Some r" and "r \<noteq> []" and "json_parse P r = None"
  shows "sendParkingDiscount P db fetch plateNumber code ov
         = (\<lparr>success = False,
             message = Some (''Custom response template parse failed for '' @ name dt),
             rawResponse = None, redirectUrl = None, discountInfo = None\<rparr>, [DbLoad code])"
  using assms
  by (simp add: sendParkingDiscount_def submit_with_config_def parseResponseTemplate_def
      safeJsonParse_def js_or_def failure_def Let_def)

theorem bad_response_template_witness:
  "''24hour'' \<noteq> ''none''
   \<and> json_parse ref_platform ''{oops'' = None
   \<and> sendParkingDiscount ref_platform
        (\<lambda>c. Inr (Some \<lparr>name = ''Day'', jsessionid = Some ''ABC123'', refererUrl = None,
                          scanUrl = None, postParams = None, useCustomRequest = False,
                          requestTemplate = None, responseTemplate = Some ''{oops''\<rparr>))
        (\<lambda>r. Inr \<lparr>resp_ok = True, resp_text = ''ok''\<rparr>) ''B12345'' ''24hour''
        \<lparr>guestNote = None, guestName = None, phone = None, extra = []\<rparr>
      = (\<lparr>success = False, message = Some ''Custom response template parse failed for Day'',
          rawResponse = None, redirectUrl = None, discountInfo = None\<rparr>, [DbLoad ''24hour''])"
proof -
  let ?dt = "\<lparr>name = ''Day'', jsessionid = Some ''ABC123'', refererUrl = None,
               scanUrl = None, postParams = None, useCustomRequest = False,
               requestTemplate = None, responseTemplate = Some ''{oops''\<rparr>"
  have ne: "''24hour'' \<noteq> ''none''" by simp
  have bad: "json_parse ref_platform ''{oops'' = None" by code_simp
  have db: "(\<lambda>c. Inr (Some ?dt) :: js_error + discount_type option) ''24hour'' = Inr (Some ?dt)"
    by simp
  have rt: "responseTemplate ?dt = Some ''{oops''" by simp
  have nn: "''{oops'' \<noteq> []" by simp
  show ?thesis
    using ne bad bad_response_template_fails_first[OF ne db rt nn bad,
        of "\<lambda>r. Inr \<lparr>resp_ok = True, resp_text = ''ok''\<rparr>" "''B12345''"
          "\<lparr>guestNote = None, guestName = None, phone = None, extra = []\<rparr>"]
    by simp
qed

text \<open>
  C1. With \<^verbatim>\<open>useCustomRequest\<close> enabled, a request template that is absent, empty or only
  white space, or whose trimmed text \<^verbatim>\<open>parseRequestTemplate\<close> rejects, makes the submission
  fail with a template error message and nothing but the lookup done: no request is sent,
  the legacy flow is not tried. In the legacy mode a missing session id makes it fail with a
  configuration error, also with no request sent. (When the response template is broken as
  well, its own message is the one reported, since that test comes first.)
\<close>

theorem configuration_errors_are_definitive:
  assumes "code \<noteq> ''none''" and "db code = Inr (Some dt)"
  shows "(useCustomRequest dt
          \<and> (case requestTemplate dt of
                None \<Rightarrow> True
              | Some t \<Rightarrow> trim t = [] \<or> parseRequestTemplate P (trim t) = None) \<longrightarrow>
          sendParkingDiscount P db fetch plateNumber code ov
            = (\<lparr>success = False,
                message = Some
                  (if response_template_broken P dt
                   then ''Custom response template parse failed for '' @ name dt
                   else if (case requestTemplate dt of None \<Rightarrow> True | Some t \<Rightarrow> trim t = [])
                   then ''Custom request enabled but template is empty for '' @ name dt
                   else ''Custom request template parse failed for '' @ name dt),
                rawResponse = None, redirectUrl = None, discountInfo = None\<rparr>, [DbLoad code]))
       \<and> (\<not> useCustomRequest dt \<and> (jsessionid dt = None \<or> jsessionid dt = Some []) \<longrightarrow>
          sendParkingDiscount P db fetch plateNumber code ov
            = (\<lparr>success = False,
                message = Some
                  (if response_template_broken P dt
                   then ''Custom response template parse failed for '' @ name dt
                   else ''Discount type '' @ name dt @ '' missing Session ID. Configure in settings.''),
                rawResponse = None, redirectUrl = None, discountInfo = None\<rparr>, [DbLoad code]))"
  using assms
  by (auto simp: sendParkingDiscount_def submit_with_config_def response_template_broken_def
      failure_def Let_def split: option.splits)

theorem configuration_errors_witness:
  "sendParkingDiscount ref_platform
        (\<lambda>c. Inr (Some \<lparr>name = ''Day'', jsessionid = Some ''ABC123'', refererUrl = None,
                          scanUrl = None, postParams = None, useCustomRequest = True,
                          requestTemplate = Some ''  hello world '', responseTemplate = None\<rparr>))
        (\<lambda>r. Inr \<lparr>resp_ok = True, resp_text = ''ok''\<rparr>) ''B12345'' ''24hour''
        \<lparr>guestNote = None, guestName = None, phone = None, extra = []\<rparr>
      = (\<lparr>success = False, message = Some ''Custom request template parse failed for Day'',
          rawResponse = None, redirectUrl = None, discountInfo = None\<rparr>, [DbLoad ''24hour''])
   \<and> sendParkingDiscount ref_platform
        (\<lambda>c. Inr (Some \<lparr>name = ''Day'', jsessionid = None, refererUrl = None,
                          scanUrl = None, postParams = None, useCustomRequest = False,
                          requestTemplate = Some ''hello world'', responseTemplate = None\<rparr>))
        (\<lambda>r. Inr \<lparr>resp_ok = True, resp_text = ''ok''\<rparr>) ''B12345'' ''24hour''
        \<lparr>guestNote = None, guestName = None, phone = None, extra = []\<rparr>
      = (\<lparr>success = False,
          message = Some ''Discount type Day missing Session ID. Configure in settings.'',
          rawResponse = None, redirectUrl = None, discountInfo = None\<rparr>, [DbLoad ''24hour''])"
proof -
  let ?custom = "\<lparr>name = ''Day'', jsessionid = Some ''ABC123'', refererUrl = None,
                   scanUrl = None, postParams = None, useCustomRequest = True,
                   requestTemplate = Some ''  hello world '', responseTemplate = None\<rparr>"
  let ?legacy = "\<lparr>name = ''Day'', jsessionid = None, refererUrl = None,
                   scanUrl = None, postParams = None, useCustomRequest = False,
                   requestTemplate = Some ''hello world'', responseTemplate = None\<rparr>"
  let ?fetch = "\<lambda>r::request. Inr \<lparr>resp_ok = True, resp_text = ''ok''\<rparr> :: js_error + response"
  let ?ov = "\<lparr>guestNote = None, guestName = None, phone = None, extra = []\<rparr>"
  have ne: "''24hour'' \<noteq> ''none''" by simp
  have tr: "trim ''  hello world '' = ''hello world''" by code_simp
  have bad: "parseRequestTemplate ref_platform ''hello world'' = None" by code_simp
  have ok1: "\<not> response_template_broken ref_platform ?custom"
    and ok2: "\<not> response_template_broken ref_platform ?legacy"
    by (simp_all add: response_template_broken_def)
  have c: "(\<lambda>c. Inr (Some ?custom) :: js_error + discount_type option) ''24hour'' = Inr (Some ?custom)"
    and l: "(\<lambda>c. Inr (Some ?legacy) :: js_error + discount_type option) ''24hour'' = Inr (Some ?legacy)"
    by simp_all
  from configuration_errors_are_definitive[OF ne c, of ref_platform ?fetch "''B12345''" ?ov]
  have first: "sendParkingDiscount ref_platform (\<lambda>c. Inr (Some ?custom)) ?fetch ''B12345'' ''24hour'' ?ov
      = (\<lparr>success = False, message = Some ''Custom request template parse failed for Day'',
          rawResponse = None, redirectUrl = None, discountInfo = None\<rparr>, [DbLoad ''24hour''])"
    using tr bad ok1 by simp
  from configuration_errors_are_definitive[OF ne l, of ref_platform ?fetch "''B12345''" ?ov]
  have second: "sendParkingDiscount ref_platform (\<lambda>c. Inr (Some ?legacy)) ?fetch ''B12345'' ''24hour'' ?ov
      = (\<lparr>success = False,
          message = Some ''Discount type Day missing Session ID. Configure in settings.'',
          rawResponse = None, redirectUrl = None, discountInfo = None\<rparr>, [DbLoad ''24hour''])"
    using ok2 by simp
  show ?thesis using first second by (intro conjI)
qed

section \<open>Properties of objects\<close>





lemma obj_assign_Nil [simp]: "obj_assign ps [] = ps"
  by (simp add: obj_assign_def)







section \<open>Properties of URLSearchParams\<close>






























lemma fold_snoc: "fold f (xs @ [x]) s = f x (fold f xs s)"
  by simp






section \<open>Properties of body directives\<close>

lemma dropWhile_fixed: "xs = [] \<or> \<not> P (hd xs) \<Longrightarrow> dropWhile P xs = xs"
  by (cases xs) auto

















section \<open>Body and header directives\<close>













text \<open>
  C7. The header directive of a template text is merged by a plain spread, so a header that
  exists in another letter case is kept next to the new one: here the result has both
  \<^verbatim>\<open>Content-Type\<close> and \<^verbatim>\<open>content-type\<close>. \<^verbatim>\<open>mergeHeaders\<close>, which the directive of the note
  goes through, replaces the existing key on the same input.
\<close>

theorem template_header_directive_duplicates:
  \<open>map_option headers
     (parseRequestTemplate ref_platform
        ''{"url":"http://x","headers":{"Content-Type":"text/plain"}}#header{content-type=application/json}'')
   = Some (JObj [(''Content-Type'', JStr ''text/plain''),
                 (''content-type'', JStr ''application/json'')])
   \<and> mergeHeaders [(''Content-Type'', JStr ''text/plain'')]
        (entries (parseHeaderDirective ref_platform ''content-type=application/json''))
      = [(''content-type'', JStr ''application/json'')]\<close>
  by code_simp

section \<open>Response evaluation in the JSON mode\<close>

lemma prefix_within_run:
  assumes "list_all Q lit" "\<not> Q x" "startsWith lit (w @ x # r)"
  shows "length lit \<le> length w"
proof (rule ccontr)
  assume "\<not> length lit \<le> length w"
  then have lt: "length w < length lit" by simp
  from assms(3) have eq: "take (length lit) (w @ x # r) = lit" by (simp add: startsWith_def)
  have "lit ! length w = (take (length lit) (w @ x # r)) ! length w" by (simp only: eq)
  also have "\<dots> = x" using lt by (simp add: nth_append)
  finally have "lit ! length w = x" .
  moreover have "Q (lit ! length w)" using assms(1) lt by (simp add: list_all_length)
  ultimately show False using assms(2) by simp
qed

lemma literal_then_more:
  assumes "list_all Q w" "\<not> Q x" "list_all Q lit" "startsWith lit (w @ x # r)"
    and "\<And>c. Q c \<Longrightarrow> \<not> json_ws c" and "\<not> json_ws x"
  shows "skip_ws (drop (length lit) (w @ x # r)) \<noteq> []"
proof -
  have le: "length lit \<le> length w" by (rule prefix_within_run[OF assms(3,2,4)])
  then have d: "drop (length lit) (w @ x # r) = drop (length lit) w @ x # r" by simp
  have "\<not> json_ws (hd (drop (length lit) w @ x # r))"
  proof (cases "drop (length lit) w")
    case Nil
    then show ?thesis using assms(6) by simp
  next
    case (Cons a as)
    then have "a \<in> set w" by (metis in_set_dropD list.set_intros(1))
    then have "Q a" using assms(1) by (simp add: list_all_iff)
    then show ?thesis using assms(5) Cons by simp
  qed
  then have "dropWhile json_ws (drop (length lit) w @ x # r) = drop (length lit) w @ x # r"
    by (intro dropWhile_fixed) simp
  then show ?thesis unfolding skip_ws_def d by simp
qed

lemma ident_char_not_ws: "ident_char c \<Longrightarrow> \<not> json_ws c"
  by (auto simp: ident_char_def json_ws_def is_word_def is_alpha_def is_upper_def is_lower_def
      is_digit_def)

lemma jsonp_shape:
  assumes "jsonp_inner t = Some inner"
  obtains w r1 where "t = w @ CHR ''('' # r1" "list_all ident_char w" "w \<noteq> []"
    "\<not> is_digit (hd w)"
proof -
  from assms obtain c r where t: "t = c # r" and c: "is_alpha c \<or> c = CHR ''_'' \<or> c = CHR ''$''"
    by (auto simp: jsonp_inner_def split: list.splits if_splits)
  from assms t obtain r1 where dw: "dropWhile ident_char r = CHR ''('' # r1"
    by (auto simp: jsonp_inner_def ident_char_def[abs_def] Let_def split: list.splits if_splits)
  let ?w = "c # takeWhile ident_char r"
  have "t = ?w @ CHR ''('' # r1"
    using t dw by (metis append_Cons takeWhile_dropWhile_id)
  moreover have "list_all ident_char ?w"
    using c by (auto simp: ident_char_def is_word_def list_all_iff dest: set_takeWhileD)
  moreover have "\<not> is_digit (hd ?w)"
    using c by (auto simp: is_alpha_def is_upper_def is_lower_def is_digit_def)
  ultimately show ?thesis using that by blast
qed

lemma jsonp_not_json:
  assumes "jsonp_inner t = Some inner"
  shows "json_parse P t = None"
proof -
  from assms obtain w r1 where t: "t = w @ CHR ''('' # r1" and w: "list_all ident_char w"
    and ne: "w \<noteq> []" and nd: "\<not> is_digit (hd w)"
    by (rule jsonp_shape)
  obtain c w' where wc: "w = c # w'" using ne by (cases w) auto
  have c: "ident_char c" using w wc by simp
  have nws: "\<not> json_ws c" using c by (rule ident_char_not_ws)
  have skip: "skip_ws t = t" using nws by (simp add: skip_ws_def t wc)
  have paren: "\<not> ident_char (CHR ''('')" "\<not> json_ws (CHR ''('')"
    by (simp_all add: ident_char_def json_ws_def is_word_def is_alpha_def is_upper_def
        is_lower_def is_digit_def)
  have lit: "\<And>l. list_all ident_char l \<Longrightarrow> startsWith l t \<Longrightarrow> skip_ws (drop (length l) t) \<noteq> []"
    unfolding t using literal_then_more[OF w paren(1) _ _ ident_char_not_ws paren(2)] by blast
  have true: "startsWith ''true'' t \<Longrightarrow> skip_ws (drop 4 t) \<noteq> []"
    using lit[of "''true''"] by (simp add: ident_char_def is_word_def is_alpha_def is_lower_def eval_nat_numeral)
  have false: "startsWith ''false'' t \<Longrightarrow> skip_ws (drop 5 t) \<noteq> []"
    using lit[of "''false''"] by (simp add: ident_char_def is_word_def is_alpha_def is_lower_def eval_nat_numeral)
  have null: "startsWith ''null'' t \<Longrightarrow> skip_ws (drop 4 t) \<noteq> []"
    using lit[of "''null''"] by (simp add: ident_char_def is_word_def is_alpha_def is_lower_def eval_nat_numeral)
  have cne: "c \<noteq> CHR 0x7B" "c \<noteq> CHR 0x5B" "c \<noteq> CHR 0x22" "c \<noteq> CHR ''-''" "c \<noteq> CHR ''0''"
    using c nd wc
    by (auto simp: ident_char_def is_word_def is_alpha_def is_upper_def is_lower_def is_digit_def)
  have num: "\<not> json_number_ok (takeWhile is_num_char t)"
  proof (cases "is_num_char c")
    case True
    then have "takeWhile is_num_char t = c # takeWhile is_num_char (w' @ CHR ''('' # r1)"
      by (simp add: t wc)
    then show ?thesis using cne nd wc by (simp add: json_number_ok_def num_int_def)
  next
    case False
    then have "takeWhile is_num_char t = []" by (simp add: t wc)
    then show ?thesis by (simp add: json_number_ok_def num_int_def)
  qed
  have tc: "t = c # (w' @ CHR ''('' # r1)" by (simp add: t wc)
  have "case json_value P t of None \<Rightarrow> True | Some (v, r) \<Rightarrow> skip_ws r \<noteq> []"
    using cne true false null num
    by (subst json_value.simps) (simp add: tc Let_def)
  then show ?thesis
    unfolding json_parse_def skip by (auto split: option.splits)
qed

lemma tryParse_is_lenient_parse: "tryParseJsonFromText P txt = lenient_parse P txt"
proof (cases "trim txt = []")
  case True
  have "trim [] = []" by (simp add: trim_def)
  then show ?thesis
    using True
    by (simp add: tryParseJsonFromText_def lenient_parse_def safeJsonParse_def jsonp_inner_def
        brace_slice_def lastIndexOf_def)
next
  case False
  then have ne: "txt \<noteq> []" by (auto simp: trim_def)
  show ?thesis
  proof (cases "jsonp_inner (trim txt)")
    case None
    then show ?thesis
      using False ne
      by (simp add: tryParseJsonFromText_def lenient_parse_def brace_slice_def Let_def
          split: option.splits prod.splits)
  next
    case (Some inner)
    then have "safeJsonParse P (trim txt) = JNull"
      by (simp add: safeJsonParse_def jsonp_not_json)
    then show ?thesis
      using False ne Some
      by (simp add: tryParseJsonFromText_def lenient_parse_def brace_slice_def Let_def
          split: option.splits prod.splits)
  qed
qed







section \<open>The fallback without a response rule\<close>

lemma extract_or_undefined:
  "extractDiscountInfo P (js_or j JUndefined) = extractDiscountInfo P j"
  by (simp add: extractDiscountInfo_def js_or_def)

lemma extract_shape:
  "extractDiscountInfo P j = Some info \<longleftrightarrow>
   truthy j \<and> (\<exists>ps. get_prop j ''info'' = JObj ps \<and> has_own ps ''discountcharge''
     \<and> info = \<lparr>plate = to_string (js_or (obj_get ps ''plate'') (JStr [])),
                discountcharge = to_number P (js_or (obj_get ps ''discountcharge'') (JNum ''0'')),
                needcharge = to_string (js_or (obj_get ps ''needcharge'') (JStr ''0'')),
                entertime = to_string (js_or (obj_get ps ''entertime'') (JStr [])),
                staytime = to_string (js_or (obj_get ps ''staytime'') (JStr []))\<rparr>)"
  by (cases "get_prop j ''info''") (auto simp: extractDiscountInfo_def)

lemma custom_result_without_rule:
  "\<not> truthy customResponse \<Longrightarrow>
   custom_result P customResponse resp
   = Inr (case extractDiscountInfo P (lenient_parse P (resp_text resp)) of
            Some info \<Rightarrow>
              \<lparr>success = True, message = None, rawResponse = Some (resp_text resp),
               redirectUrl = None, discountInfo = Some info\<rparr>
          | None \<Rightarrow>
              \<lparr>success = resp_ok resp,
               message = (if resp_ok resp then None else Some ''Request failed''),
               rawResponse = Some (resp_text resp), redirectUrl = None, discountInfo = None\<rparr>)"
  by (simp add: custom_result_def evaluateCustomResponse_def extract_or_undefined
      tryParse_is_lenient_parse Let_def split: option.splits)

lemma legacy_result_cases:
  "legacy_result P resp
   = (case extractDiscountInfo P (lenient_parse P (resp_text resp)) of
        Some info \<Rightarrow>
          \<lparr>success = True, message = None, rawResponse = Some (resp_text resp),
           redirectUrl = None, discountInfo = Some info\<rparr>
      | None \<Rightarrow>
          \<lparr>success = False,
           message = Some
             (let infoObj = opt_prop (lenient_parse P (resp_text resp)) ''info'' in
              if truthy infoObj \<and> typeof_object infoObj \<and> truthy (get_prop infoObj ''errmsg'')
                 \<and> \<not> strict_eq (get_prop infoObj ''errmsg'') (JStr ''ok'')
              then to_string (get_prop infoObj ''errmsg'')
              else ''Parking discount request failed''),
           rawResponse = Some (resp_text resp), redirectUrl = None, discountInfo = None\<rparr>)"
  by (simp add: legacy_result_def extract_or_undefined tryParse_is_lenient_parse Let_def
      split: option.splits)

lemma legacy_submission:
  assumes "code \<noteq> ''none''" "db code = Inr (Some dt)" "\<not> useCustomRequest dt"
    "\<not> response_template_broken P dt" "jsessionid dt = Some sid" "sid \<noteq> []"
    "fetch (legacy_request P plateNumber dt sid) = Inr resp"
  shows "sendParkingDiscount P db fetch plateNumber code ov
         = (legacy_result P resp, [DbLoad code, Fetch (legacy_request P plateNumber dt sid)])"
  using assms
  by (auto simp: sendParkingDiscount_def submit_with_config_def response_template_broken_def
      Let_def split: option.splits)

lemma custom_submission_without_rule:
  assumes "code \<noteq> ''none''" "db code = Inr (Some dt)" "useCustomRequest dt"
    "requestTemplate dt = Some tpl" "trim tpl \<noteq> []"
    "parseRequestTemplate P (trim tpl) = Some rc"
    "responseTemplate dt = None \<or> responseTemplate dt = Some []"
    "build_request (effective_config P rc (guestNote ov)) (build_context P plateNumber code dt ov)
     = Inr req"
    "fetch req = Inr resp"
  shows "sendParkingDiscount P db fetch plateNumber code ov
         = (case custom_result P JNull resp of Inr res \<Rightarrow> res | Inl e \<Rightarrow> caught,
            [DbLoad code, Fetch req])"
  using assms
  by (auto simp: sendParkingDiscount_def submit_with_config_def parseResponseTemplate_def
      Let_def split: option.splits sum.splits)

text \<open>
  C5, amended. With no response rule configured, the response text is parsed leniently and
  \<^verbatim>\<open>extractDiscountInfo\<close> finds the discount fields exactly when the parsed value is truthy
  and its \<^verbatim>\<open>info\<close> is an object with an own \<^verbatim>\<open>discountcharge\<close>; the result is then a success
  carrying those fields (the number converted, \<^verbatim>\<open>needcharge\<close> defaulting to \<^verbatim>\<open>"0"\<close>), in both
  modes. When that shape is absent the two modes differ. The custom mode without a response
  template follows the HTTP status: a 2xx status gives a success with no message and no
  fields, any other status a failure with the message \<^verbatim>\<open>Request failed\<close>; \<^verbatim>\<open>info.errmsg\<close>
  is not looked at. The legacy mode fails whatever the HTTP status, and its message is
  \<^verbatim>\<open>info.errmsg\<close> when that is truthy and not \<^verbatim>\<open>"ok"\<close>, and
  \<^verbatim>\<open>Parking discount request failed\<close> otherwise.
\<close>

theorem builtin_fallback:
  assumes "code \<noteq> ''none''" and "db code = Inr (Some dt)"
  shows
    "(extractDiscountInfo P j = Some info \<longleftrightarrow>
        truthy j \<and> (\<exists>ps. get_prop j ''info'' = JObj ps \<and> has_own ps ''discountcharge''
          \<and> info = \<lparr>plate = to_string (js_or (obj_get ps ''plate'') (JStr [])),
                     discountcharge = to_number P (js_or (obj_get ps ''discountcharge'') (JNum ''0'')),
                     needcharge = to_string (js_or (obj_get ps ''needcharge'') (JStr ''0'')),
                     entertime = to_string (js_or (obj_get ps ''entertime'') (JStr [])),
                     staytime = to_string (js_or (obj_get ps ''staytime'') (JStr []))\<rparr>))
   \<and> (useCustomRequest dt \<and> requestTemplate dt = Some tpl \<and> trim tpl \<noteq> []
        \<and> parseRequestTemplate P (trim tpl) = Some rc
        \<and> (responseTemplate dt = None \<or> responseTemplate dt = Some [])
        \<and> build_request (effective_config P rc (guestNote ov))
              (build_context P plateNumber code dt ov) = Inr req
        \<and> fetch req = Inr resp \<longrightarrow>
        sendParkingDiscount P db fetch plateNumber code ov
          = (case extractDiscountInfo P (lenient_parse P (resp_text resp)) of
               Some found \<Rightarrow>
                 \<lparr>success = True, message = None, rawResponse = Some (resp_text resp),
                  redirectUrl = None, discountInfo = Some found\<rparr>
             | None \<Rightarrow>
                 \<lparr>success = resp_ok resp,
                  message = (if resp_ok resp then None else Some ''Request failed''),
                  rawResponse = Some (resp_text resp), redirectUrl = None, discountInfo = None\<rparr>,
             [DbLoad code, Fetch req]))
   \<and> (\<not> useCustomRequest dt \<and> \<not> response_template_broken P dt
        \<and> jsessionid dt = Some sid \<and> sid \<noteq> []
        \<and> fetch (legacy_request P plateNumber dt sid) = Inr resp \<longrightarrow>
        sendParkingDiscount P db fetch plateNumber code ov
          = (case extractDiscountInfo P (lenient_parse P (resp_text resp)) of
               Some found \<Rightarrow>
                 \<lparr>success = True, message = None, rawResponse = Some (resp_text resp),
                  redirectUrl = None, discountInfo = Some found\<rparr>
             | None \<Rightarrow>
                 \<lparr>success = False,
                  message = Some
                    (let infoObj = opt_prop (lenient_parse P (resp_text resp)) ''info'' in
                     if truthy infoObj \<and> typeof_object infoObj
                        \<and> truthy (get_prop infoObj ''errmsg'')
                        \<and> \<not> strict_eq (get_prop infoObj ''errmsg'') (JStr ''ok'')
                     then to_string (get_prop infoObj ''errmsg'')
                     else ''Parking discount request failed''),
                  rawResponse = Some (resp_text resp), redirectUrl = None, discountInfo = None\<rparr>,
             [DbLoad code, Fetch (legacy_request P plateNumber dt sid)]))"
proof -
  have custom: "useCustomRequest dt \<and> requestTemplate dt = Some tpl \<and> trim tpl \<noteq> []
        \<and> parseRequestTemplate P (trim tpl) = Some rc
        \<and> (responseTemplate dt = None \<or> responseTemplate dt = Some [])
        \<and> build_request (effective_config P rc (guestNote ov))
              (build_context P plateNumber code dt ov) = Inr req
        \<and> fetch req = Inr resp \<longrightarrow>
        sendParkingDiscount P db fetch plateNumber code ov
          = (case extractDiscountInfo P (lenient_parse P (resp_text resp)) of
               Some found \<Rightarrow>
                 \<lparr>success = True, message = None, rawResponse = Some (resp_text resp),
                  redirectUrl = None, discountInfo = Some found\<rparr>
             | None \<Rightarrow>
                 \<lparr>success = resp_ok resp,
                  message = (if resp_ok resp then None else Some ''Request failed''),
                  rawResponse = Some (resp_text resp), redirectUrl = None, discountInfo = None\<rparr>,
             [DbLoad code, Fetch req])"
    using assms custom_submission_without_rule[where code = code and db = db and dt = dt
        and tpl = tpl and P = P and rc = rc and ov = ov and plateNumber = plateNumber
        and req = req and fetch = fetch and resp = resp]
      custom_result_without_rule[of JNull P resp]
    by simp
  have legacy: "\<not> useCustomRequest dt \<and> \<not> response_template_broken P dt
        \<and> jsessionid dt = Some sid \<and> sid \<noteq> []
        \<and> fetch (legacy_request P plateNumber dt sid) = Inr resp \<longrightarrow>
        sendParkingDiscount P db fetch plateNumber code ov
          = (case extractDiscountInfo P (lenient_parse P (resp_text resp)) of
               Some found \<Rightarrow>
                 \<lparr>success = True, message = None, rawResponse = Some (resp_text resp),
                  redirectUrl = None, discountInfo = Some found\<rparr>
             | None \<Rightarrow>
                 \<lparr>success = False,
                  message = Some
                    (let infoObj = opt_prop (lenient_parse P (resp_text resp)) ''info'' in
                     if truthy infoObj \<and> typeof_object infoObj
                        \<and> truthy (get_prop infoObj ''errmsg'')
                        \<and> \<not> strict_eq (get_prop infoObj ''errmsg'') (JStr ''ok'')
                     then to_string (get_prop infoObj ''errmsg'')
                     else ''Parking discount request failed''),
                  rawResponse = Some (resp_text resp), redirectUrl = None, discountInfo = None\<rparr>,
             [DbLoad code, Fetch (legacy_request P plateNumber dt sid)])"
    using assms legacy_submission[where code = code and db = db and dt = dt and P = P
        and sid = sid and fetch = fetch and plateNumber = plateNumber and resp = resp and ov = ov]
      legacy_result_cases[of P resp]
    by simp
  show ?thesis
    by (intro conjI) (rule extract_shape, fact custom, fact legacy)
qed

theorem builtin_fallback_witness:
  \<open>sendParkingDiscount ref_platform
        (\<lambda>c. Inr (Some \<lparr>name = ''Day'', jsessionid = Some ''ABC123'', refererUrl = None,
                          scanUrl = None, postParams = None, useCustomRequest = True,
                          requestTemplate = Some ''{"url":"http://x/api","method":"GET"}'',
                          responseTemplate = None\<rparr>))
        (\<lambda>r. Inr \<lparr>resp_ok = True, resp_text = ''{"info":{"errmsg":"bad plate"}}''\<rparr>)
        ''B12345'' ''24hour''
        \<lparr>guestNote = None, guestName = None, phone = None, extra = []\<rparr>
      = (\<lparr>success = True, message = None,
          rawResponse = Some ''{"info":{"errmsg":"bad plate"}}'',
          redirectUrl = None, discountInfo = None\<rparr>,
         [DbLoad ''24hour'',
          Fetch \<lparr>req_url = ''http://x/api'', req_method = ''GET'',
                  req_headers = [(''Cookie'', JStr ''JSESSIONID=ABC123'')],
                  req_body = None\<rparr>])
   \<and> sendParkingDiscount ref_platform
        (\<lambda>c. Inr (Some \<lparr>name = ''Day'', jsessionid = Some ''ABC123'', refererUrl = None,
                          scanUrl = None, postParams = None, useCustomRequest = False,
                          requestTemplate = None, responseTemplate = None\<rparr>))
        (\<lambda>r. Inr \<lparr>resp_ok = True, resp_text = ''{"info":{"errmsg":"bad plate"}}''\<rparr>)
        ''B12345'' ''24hour''
        \<lparr>guestNote = None, guestName = None, phone = None, extra = []\<rparr>
      = (\<lparr>success = False, message = Some ''bad plate'',
          rawResponse = Some ''{"info":{"errmsg":"bad plate"}}'',
          redirectUrl = None, discountInfo = None\<rparr>,
         [DbLoad ''24hour'',
          Fetch (legacy_request ref_platform ''B12345''
                   \<lparr>name = ''Day'', jsessionid = Some ''ABC123'', refererUrl = None,
                    scanUrl = None, postParams = None, useCustomRequest = False,
                    requestTemplate = None, responseTemplate = None\<rparr> ''ABC123'')])\<close>
proof -
  let ?tpl = \<open>''{"url":"http://x/api","method":"GET"}''\<close>
  let ?custom = "\<lparr>name = ''Day'', jsessionid = Some ''ABC123'', refererUrl = None,
                   scanUrl = None, postParams = None, useCustomRequest = True,
                   requestTemplate = Some ?tpl, responseTemplate = None\<rparr>"
  let ?legacy = "\<lparr>name = ''Day'', jsessionid = Some ''ABC123'', refererUrl = None,
                   scanUrl = None, postParams = None, useCustomRequest = False,
                   requestTemplate = None, responseTemplate = None\<rparr>"
  let ?txt = \<open>''{"info":{"errmsg":"bad plate"}}''\<close>
  let ?resp = "\<lparr>resp_ok = True, resp_text = ?txt\<rparr>"
  let ?fetch = "\<lambda>r::request. Inr ?resp :: js_error + response"
  let ?ov = "\<lparr>guestNote = None, guestName = None, phone = None, extra = []\<rparr>"
  let ?rc = "\<lparr>url = JStr ''http://x/api'', http_method = JStr ''GET'',
               headers = JUndefined, body = JUndefined, bodyType = JUndefined\<rparr>"
  let ?req = "\<lparr>req_url = ''http://x/api'', req_method = ''GET'',
                req_headers = [(''Cookie'', JStr ''JSESSIONID=ABC123'')],
                req_body = None\<rparr>"
  have ne: "''24hour'' \<noteq> ''none''" by simp
  have tr: "trim ?tpl = ?tpl" by code_simp
  have parsed: "parseRequestTemplate ref_platform ?tpl = Some ?rc" by code_simp
  have built: "build_request (effective_config ref_platform ?rc (guestNote ?ov))
                 (build_context ref_platform ''B12345'' ''24hour'' ?custom ?ov) = Inr ?req"
    by code_simp
  have json: "lenient_parse ref_platform ?txt = JObj [(''info'', JObj [(''errmsg'', JStr ''bad plate'')])]"
    by code_simp
  have none: "extractDiscountInfo ref_platform
                (JObj [(''info'', JObj [(''errmsg'', JStr ''bad plate'')])]) = None"
    by code_simp
  have msg: "(let infoObj = opt_prop (JObj [(''info'', JObj [(''errmsg'', JStr ''bad plate'')])]) ''info''
              in if truthy infoObj \<and> typeof_object infoObj
                    \<and> truthy (get_prop infoObj ''errmsg'')
                    \<and> \<not> strict_eq (get_prop infoObj ''errmsg'') (JStr ''ok'')
                 then to_string (get_prop infoObj ''errmsg'')
                 else ''Parking discount request failed'') = ''bad plate''"
    by code_simp
  have ok: "\<not> response_template_broken ref_platform ?legacy"
    by (simp add: response_template_broken_def)
  have c: "(\<lambda>c. Inr (Some ?custom) :: js_error + discount_type option) ''24hour'' = Inr (Some ?custom)"
    and l: "(\<lambda>c. Inr (Some ?legacy) :: js_error + discount_type option) ''24hour'' = Inr (Some ?legacy)"
    by simp_all
  note custom = builtin_fallback[OF ne c, of ref_platform _ _ ?tpl ?rc ?ov "''B12345''" ?req ?fetch ?resp]
  note legacy = builtin_fallback[OF ne l, of ref_platform _ _ _ _ ?ov "''B12345''" _ ?fetch ?resp "''ABC123''"]
  have first: "sendParkingDiscount ref_platform (\<lambda>c. Inr (Some ?custom)) ?fetch ''B12345'' ''24hour'' ?ov
      = (\<lparr>success = True, message = None, rawResponse = Some ?txt,
          redirectUrl = None, discountInfo = None\<rparr>, [DbLoad ''24hour'', Fetch ?req])"
    using custom tr parsed built json none by simp
  have second: "sendParkingDiscount ref_platform (\<lambda>c. Inr (Some ?legacy)) ?fetch ''B12345'' ''24hour'' ?ov
      = (\<lparr>success = False, message = Some ''bad plate'', rawResponse = Some ?txt,
          redirectUrl = None, discountInfo = None\<rparr>,
         [DbLoad ''24hour'', Fetch (legacy_request ref_platform ''B12345'' ?legacy ''ABC123'')])"
    using legacy ok json none msg by simp
  show ?thesis using first second by (intro conjI)
qed

theorem builtin_fallback_counterexample:
  \<open>fst (sendParkingDiscount ref_platform
        (\<lambda>c. Inr (Some \<lparr>name = ''Day'', jsessionid = Some ''ABC123'', refererUrl = None,
                          scanUrl = None, postParams = None, useCustomRequest = False,
                          requestTemplate = None, responseTemplate = None\<rparr>))
        (\<lambda>r. Inr \<lparr>resp_ok = True, resp_text = ''{"info":{"errmsg":"ok"}}''\<rparr>)
        ''B12345'' ''24hour''
        \<lparr>guestNote = None, guestName = None, phone = None, extra = []\<rparr>)
      = \<lparr>success = False, message = Some ''Parking discount request failed'',
         rawResponse = Some ''{"info":{"errmsg":"ok"}}'',
         redirectUrl = None, discountInfo = None\<rparr>
   \<and> fst (sendParkingDiscount ref_platform
        (\<lambda>c. Inr (Some \<lparr>name = ''Day'', jsessionid = Some ''ABC123'', refererUrl = None,
                          scanUrl = None, postParams = None, useCustomRequest = True,
                          requestTemplate = Some ''{"url":"http://x/api","method":"GET"}'',
                          responseTemplate = None\<rparr>))
        (\<lambda>r. Inr \<lparr>resp_ok = False, resp_text = ''{"info":{"errmsg":"bad plate"}}''\<rparr>)
        ''B12345'' ''24hour''
        \<lparr>guestNote = None, guestName = None, phone = None, extra = []\<rparr>)
      = \<lparr>success = False, message = Some ''Request failed'',
         rawResponse = Some ''{"info":{"errmsg":"bad plate"}}'',
         redirectUrl = None, discountInfo = None\<rparr>\<close>
  by code_simp

end
